theory Spec2Isabelle
  imports Main
begin

section \<open>Behaviour metadata (KeyAssignPanel)\<close>

text \<open>
  The key-assignment panel classifies the behaviours a device reports by the parameter
  metadata each one declares. A behaviour carries a list of metadata sets; a set
  describes the legal values of \<open>param1\<close> and of \<open>param2\<close> by two lists of value
  descriptions. A value description has a name and at most the fields \<open>constant\<close> (here \<open>constantValue\<close>),
  \<open>range\<close>, \<open>hidUsage\<close> and \<open>layerId\<close>; the source tests them with
  \<open>!== undefined\<close> or by truthiness, so each is an optional field here. Numbers are
  the integers the device sends. A list the source reads as \<open>x || []\<close> is the empty
  list when it is missing.
\<close>

datatype ParamName = Param1 | Param2

record BehaviorParameterHidUsage =
  keyboardMax :: "int option"
  consumerMax :: "int option"

record BehaviorParameterValueDescription =
  name :: string
  constantValue :: "int option"
  valueRange :: "(int \<times> int) option"
  hidUsage :: "BehaviorParameterHidUsage option"
  layerId :: "unit option"

record BehaviorBindingParametersSet =
  set_param1 :: "BehaviorParameterValueDescription list"
  set_param2 :: "BehaviorParameterValueDescription list"

record GetBehaviorDetailsResponse =
  behavior_id :: int
  displayName :: string
  metadata :: "BehaviorBindingParametersSet list"

record BehaviorBinding =
  behaviorId :: int
  param1 :: int
  param2 :: int

record HidUsageCaps =
  caps_keyboardMax :: int
  caps_consumerMax :: int

text \<open>\<open>x || 0\<close> on a number that may be missing: a missing number and 0 both give 0.\<close>

definition orZero :: "int option \<Rightarrow> int" where
  "orZero v = (case v of None \<Rightarrow> 0 | Some n \<Rightarrow> n)"

definition setParams :: "BehaviorBindingParametersSet \<Rightarrow> BehaviorParameterValueDescription list" where
  "setParams s = set_param1 s @ set_param2 s"

text \<open>
  \<open>getHidUsageCaps\<close> exists twice in the sources. The earlier panel flattens only the
  \<open>param1\<close> lists of the metadata sets; the later panel flattens \<open>param1\<close> followed by
  \<open>param2\<close> of every set. Both then take the first description with a \<open>hidUsage\<close>.
\<close>

definition capsOf :: "BehaviorParameterValueDescription option \<Rightarrow> HidUsageCaps option" where
  "capsOf found =
     (case found of
        None \<Rightarrow> None
      | Some p \<Rightarrow>
          (case hidUsage p of
             None \<Rightarrow> None
           | Some h \<Rightarrow>
               Some \<lparr>caps_keyboardMax = orZero (keyboardMax h),
                     caps_consumerMax = orZero (consumerMax h)\<rparr>))"

definition getHidUsageCaps_first :: "GetBehaviorDetailsResponse \<Rightarrow> HidUsageCaps option" where
  "getHidUsageCaps_first behavior =
     capsOf (find (\<lambda>p. hidUsage p \<noteq> None) (concat (map set_param1 (metadata behavior))))"

definition getHidUsageCaps :: "GetBehaviorDetailsResponse \<Rightarrow> HidUsageCaps option" where
  "getHidUsageCaps behavior =
     capsOf (find (\<lambda>p. hidUsage p \<noteq> None) (concat (map setParams (metadata behavior))))"

definition hasLayerIdParam :: "GetBehaviorDetailsResponse \<Rightarrow> bool" where
  "hasLayerIdParam behavior =
     list_ex (\<lambda>s. list_ex (\<lambda>p. layerId p \<noteq> None) (setParams s)) (metadata behavior)"

definition hasHidUsageParam :: "GetBehaviorDetailsResponse \<Rightarrow> bool" where
  "hasHidUsageParam behavior =
     list_ex (\<lambda>s. list_ex (\<lambda>p. hidUsage p \<noteq> None) (setParams s)) (metadata behavior)"

definition hasConstantParam :: "GetBehaviorDetailsResponse \<Rightarrow> bool" where
  "hasConstantParam behavior =
     list_ex (\<lambda>s. list_ex (\<lambda>p. constantValue p \<noteq> None) (setParams s)) (metadata behavior)"

text \<open>
  The behaviour map is a JavaScript object keyed by behaviour id; the panel only ever
  reads it through \<open>Object.values\<close>, which is the list of behaviours given here.
\<close>

definition getQuickLayerTapBehaviors ::
  "GetBehaviorDetailsResponse list \<Rightarrow> GetBehaviorDetailsResponse list" where
  "getQuickLayerTapBehaviors behaviors =
     filter (\<lambda>b. hasLayerIdParam b \<and> hasHidUsageParam b) behaviors"

definition getQuickModTapBehaviors ::
  "GetBehaviorDetailsResponse list \<Rightarrow> GetBehaviorDetailsResponse list" where
  "getQuickModTapBehaviors behaviors =
     filter (\<lambda>b. hasHidUsageParam b \<and> hasConstantParam b \<and> \<not> hasLayerIdParam b) behaviors"

subsection \<open>Role mappings of layer-tap and mod-tap behaviours\<close>

record LayerTapOrder =
  layerParam :: ParamName
  usageParam :: ParamName

record ModTapOrder =
  modParam :: ParamName
  modUsageParam :: ParamName

definition p1HasLayer :: "BehaviorBindingParametersSet \<Rightarrow> bool" where
  "p1HasLayer s = list_ex (\<lambda>p. layerId p \<noteq> None) (set_param1 s)"

definition p2HasLayer :: "BehaviorBindingParametersSet \<Rightarrow> bool" where
  "p2HasLayer s = list_ex (\<lambda>p. layerId p \<noteq> None) (set_param2 s)"

definition p1HasUsage :: "BehaviorBindingParametersSet \<Rightarrow> bool" where
  "p1HasUsage s = list_ex (\<lambda>p. hidUsage p \<noteq> None) (set_param1 s)"

definition p2HasUsage :: "BehaviorBindingParametersSet \<Rightarrow> bool" where
  "p2HasUsage s = list_ex (\<lambda>p. hidUsage p \<noteq> None) (set_param2 s)"

definition p1HasConst :: "BehaviorBindingParametersSet \<Rightarrow> bool" where
  "p1HasConst s = list_ex (\<lambda>p. constantValue p \<noteq> None) (set_param1 s)"

definition p2HasConst :: "BehaviorBindingParametersSet \<Rightarrow> bool" where
  "p2HasConst s = list_ex (\<lambda>p. constantValue p \<noteq> None) (set_param2 s)"

text \<open>What the loop of \<open>inferLayerTapParamOrder\<close> tests of a set: one of its two conditions.\<close>

definition separates :: "BehaviorBindingParametersSet \<Rightarrow> bool" where
  "separates s = ((p1HasLayer s \<and> p2HasUsage s) \<or> (p2HasLayer s \<and> p1HasUsage s))"

text \<open>The \<open>for (const set of behavior.metadata || [])\<close> loop, returning from inside.\<close>

fun layerTapOrderOfSets :: "BehaviorBindingParametersSet list \<Rightarrow> LayerTapOrder option" where
  "layerTapOrderOfSets [] = None"
| "layerTapOrderOfSets (s # rest) =
     (if p1HasLayer s \<and> p2HasUsage s then Some \<lparr>layerParam = Param1, usageParam = Param2\<rparr>
      else if p2HasLayer s \<and> p1HasUsage s then Some \<lparr>layerParam = Param2, usageParam = Param1\<rparr>
      else layerTapOrderOfSets rest)"

definition inferLayerTapParamOrder :: "GetBehaviorDetailsResponse \<Rightarrow> LayerTapOrder option" where
  "inferLayerTapParamOrder behavior = layerTapOrderOfSets (metadata behavior)"

fun modTapOrderOfSets :: "BehaviorBindingParametersSet list \<Rightarrow> ModTapOrder option" where
  "modTapOrderOfSets [] = None"
| "modTapOrderOfSets (s # rest) =
     (if p1HasConst s \<and> p2HasUsage s then Some \<lparr>modParam = Param1, modUsageParam = Param2\<rparr>
      else if p2HasConst s \<and> p1HasUsage s then Some \<lparr>modParam = Param2, modUsageParam = Param1\<rparr>
      else modTapOrderOfSets rest)"

definition inferModTapParamOrder :: "GetBehaviorDetailsResponse \<Rightarrow> ModTapOrder option" where
  "inferModTapParamOrder behavior = modTapOrderOfSets (metadata behavior)"

subsection \<open>Strings\<close>

text \<open>
  Strings are lists of characters, and the case conversions and the whitespace class
  are those of ASCII: the names and labels the panel compares are ASCII texts. Outside
  ASCII the JavaScript functions follow the Unicode tables, which are not modelled.
\<close>

definition toLowerChar :: "char \<Rightarrow> char" where
  "toLowerChar c =
     (let n = (of_char c :: nat) in if 65 \<le> n \<and> n \<le> 90 then char_of (n + 32) else c)"

definition toUpperChar :: "char \<Rightarrow> char" where
  "toUpperChar c =
     (let n = (of_char c :: nat) in if 97 \<le> n \<and> n \<le> 122 then char_of (n - 32) else c)"

definition toLowerCase :: "string \<Rightarrow> string" where
  "toLowerCase s = map toLowerChar s"

definition toUpperCase :: "string \<Rightarrow> string" where
  "toUpperCase s = map toUpperChar s"

text \<open>The characters the pattern \<open>[\s_-]\<close> matches: white space, underscore and hyphen.\<close>

definition isSeparatorChar :: "char \<Rightarrow> bool" where
  "isSeparatorChar c =
     (let n = (of_char c :: nat) in (9 \<le> n \<and> n \<le> 13) \<or> n = 32 \<or> n = 95 \<or> n = 45)"

definition normalizeName :: "string \<Rightarrow> string" where
  "normalizeName nm = filter (\<lambda>c. \<not> isSeparatorChar c) (toLowerCase nm)"

fun startsWith :: "string \<Rightarrow> string \<Rightarrow> bool" where
  "startsWith [] s = True"
| "startsWith (p # ps) [] = False"
| "startsWith (p # ps) (c # cs) = (p = c \<and> startsWith ps cs)"

fun containsText :: "string \<Rightarrow> string \<Rightarrow> bool" where
  "containsText pat [] = (pat = [])"
| "containsText pat (c # cs) = (startsWith pat (c # cs) \<or> containsText pat cs)"

text \<open>\<open>/bluetooth|output/i.test(name)\<close>: a case-insensitive search for either word.\<close>

definition matchesBluetoothOrOutput :: "string \<Rightarrow> bool" where
  "matchesBluetoothOrOutput nm =
     (containsText ''bluetooth'' (toLowerCase nm) \<or> containsText ''output'' (toLowerCase nm))"

subsection \<open>Constant choices\<close>

text \<open>
  \<open>Array.prototype.sort\<close> is stable; the comparison \<open>localeCompare\<close> belongs to the
  browser and is a parameter \<open>cmp\<close> here (negative: the first argument sorts first).
  The sort is the stable insertion sort for that comparison.
\<close>

fun insertByName ::
  "(string \<Rightarrow> string \<Rightarrow> int) \<Rightarrow> BehaviorParameterValueDescription \<Rightarrow>
   BehaviorParameterValueDescription list \<Rightarrow> BehaviorParameterValueDescription list" where
  "insertByName cmp x [] = [x]"
| "insertByName cmp x (y # ys) =
     (if cmp (name x) (name y) \<le> 0 then x # y # ys else y # insertByName cmp x ys)"

definition sortByName ::
  "(string \<Rightarrow> string \<Rightarrow> int) \<Rightarrow> BehaviorParameterValueDescription list \<Rightarrow>
   BehaviorParameterValueDescription list" where
  "sortByName cmp xs = foldr (insertByName cmp) xs []"

definition paramOfSet ::
  "ParamName \<Rightarrow> BehaviorBindingParametersSet \<Rightarrow> BehaviorParameterValueDescription list" where
  "paramOfSet p s = (case p of Param1 \<Rightarrow> set_param1 s | Param2 \<Rightarrow> set_param2 s)"

text \<open>
  The \<open>Map\<close> keyed by constant keeps, in the order of first appearance, the first
  description of every constant.
\<close>

fun addChoices ::
  "BehaviorParameterValueDescription list \<Rightarrow> BehaviorParameterValueDescription list \<Rightarrow>
   BehaviorParameterValueDescription list" where
  "addChoices choices [] = choices"
| "addChoices choices (d # ds) =
     (case constantValue d of
        None \<Rightarrow> addChoices choices ds
      | Some c \<Rightarrow>
          (if list_ex (\<lambda>e. constantValue e = Some c) choices then addChoices choices ds
           else addChoices (choices @ [d]) ds))"

definition collectConstantChoices ::
  "(string \<Rightarrow> string \<Rightarrow> int) \<Rightarrow> GetBehaviorDetailsResponse \<Rightarrow> ParamName \<Rightarrow>
   BehaviorParameterValueDescription list" where
  "collectConstantChoices cmp behavior p =
     sortByName cmp (addChoices [] (concat (map (paramOfSet p) (metadata behavior))))"

subsection \<open>Role mapping of bluetooth and output behaviours\<close>

record BluetoothOrder =
  actionParam :: ParamName
  profileParam :: "ParamName option"

definition BT_ACTION_LABELS :: "string list" where
  "BT_ACTION_LABELS =
     [''Next Profile'', ''Previous Profile'', ''Clear All Profiles'',
      ''Clear Selected Profile'', ''Select Profile'', ''Disconnect Profile'']"

definition otherParamName :: "ParamName \<Rightarrow> ParamName" where
  "otherParamName p = (case p of Param1 \<Rightarrow> Param2 | Param2 \<Rightarrow> Param1)"

definition getQuickBluetoothBehaviors ::
  "GetBehaviorDetailsResponse list \<Rightarrow> GetBehaviorDetailsResponse list" where
  "getQuickBluetoothBehaviors behaviors =
     (let base = filter (\<lambda>b. hasConstantParam b \<and> \<not> hasHidUsageParam b \<and> \<not> hasLayerIdParam b)
                   behaviors;
          byName = filter (\<lambda>b. matchesBluetoothOrOutput (displayName b)) base
      in if length byName > 0 then byName else base)"

text \<open>The filter \<open>getQuickBluetoothBehaviors\<close> starts from.\<close>

definition bluetoothEligible :: "GetBehaviorDetailsResponse \<Rightarrow> bool" where
  "bluetoothEligible b = (hasConstantParam b \<and> \<not> hasHidUsageParam b \<and> \<not> hasLayerIdParam b)"

definition isOtherDescription :: "BehaviorParameterValueDescription \<Rightarrow> bool" where
  "isOtherDescription p = (hidUsage p \<noteq> None \<or> layerId p \<noteq> None \<or> valueRange p \<noteq> None)"

definition inferSingleConstantParam :: "GetBehaviorDetailsResponse \<Rightarrow> ParamName option" where
  "inferSingleConstantParam behavior =
     (let p1 = concat (map set_param1 (metadata behavior));
          p2 = concat (map set_param2 (metadata behavior));
          p1HasConst = list_ex (\<lambda>p. constantValue p \<noteq> None) p1;
          p2HasConst = list_ex (\<lambda>p. constantValue p \<noteq> None) p2;
          p1HasOther = (list_ex isOtherDescription p1 \<or> (length p1 > 0 \<and> \<not> p1HasConst));
          p2HasOther = (list_ex isOtherDescription p2 \<or> (length p2 > 0 \<and> \<not> p2HasConst))
      in if p1HasConst \<and> \<not> p2HasConst \<and> length p2 = 0 \<and> \<not> p1HasOther then Some Param1
         else if p2HasConst \<and> \<not> p1HasConst \<and> length p1 = 0 \<and> \<not> p2HasOther then Some Param2
         else None)"

definition paramScore :: "ParamName \<Rightarrow> BehaviorBindingParametersSet \<Rightarrow> nat" where
  "paramScore p s =
     length (filter (\<lambda>c. normalizeName (name c) \<in> set (map normalizeName BT_ACTION_LABELS))
               (filter (\<lambda>d. constantValue d \<noteq> None) (paramOfSet p s)))"

text \<open>The test \<open>p1Score === 0 && p2Score === 0\<close> that makes the loop skip a set.\<close>

definition scoresNothing :: "BehaviorBindingParametersSet \<Rightarrow> bool" where
  "scoresNothing s = (paramScore Param1 s = 0 \<and> paramScore Param2 s = 0)"

fun bluetoothOrderOfSets :: "BehaviorBindingParametersSet list \<Rightarrow> BluetoothOrder option" where
  "bluetoothOrderOfSets [] = None"
| "bluetoothOrderOfSets (s # rest) =
     (if paramScore Param1 s = 0 \<and> paramScore Param2 s = 0 then bluetoothOrderOfSets rest
      else
        (let action = (if paramScore Param1 s \<ge> paramScore Param2 s then Param1 else Param2);
             other = otherParamName action;
             otherArr = paramOfSet other s
         in Some \<lparr>actionParam = action,
                  profileParam = (if length otherArr > 0 then Some other else None)\<rparr>))"

definition inferBluetoothParamOrder :: "GetBehaviorDetailsResponse \<Rightarrow> BluetoothOrder option" where
  "inferBluetoothParamOrder behavior =
     (case bluetoothOrderOfSets (metadata behavior) of
        Some order \<Rightarrow> Some order
      | None \<Rightarrow>
          (case inferSingleConstantParam behavior of
             Some p \<Rightarrow> Some \<lparr>actionParam = p, profileParam = None\<rparr>
           | None \<Rightarrow> None))"

section \<open>The binding codec of the panel\<close>

text \<open>
  The later panel keeps the behaviours it found for each group and the values picked
  so far in React state; the handlers read that state and either call
  \<open>onBindingChanged\<close> with a binding or return without calling it. A handler is a
  function from the state to the binding it emits, \<open>None\<close> when it emits none.
\<close>

text \<open>
  A number the panel reads from an input element with \<open>parseInt\<close> is an integer or
  \<open>NaN\<close>, which is what an emptied number input gives.
\<close>

datatype jsnum = NaN | Num int

datatype BehaviorGroup = GroupKey | GroupLayerTap | GroupBluetooth | GroupModTap | GroupOther

record PanelLayer =
  panelLayer_id :: int
  panelLayer_name :: string

record PanelState =
  selectedKeyPosition :: "nat option"
  selectedBinding :: "BehaviorBinding option"
  behaviorGroup :: BehaviorGroup
  quickBehavior :: "GetBehaviorDetailsResponse option"
  layerTapBehavior :: "GetBehaviorDetailsResponse option"
  layerTapTargetLayerId :: "int option"
  modTapBehavior :: "GetBehaviorDetailsResponse option"
  modTapModifierValue :: "int option"
  bluetoothBehavior :: "GetBehaviorDetailsResponse option"
  bluetoothActionValue :: "int option"
  bluetoothProfileValue :: "jsnum option"

definition canEdit :: "PanelState \<Rightarrow> bool" where
  "canEdit st = (selectedKeyPosition st \<noteq> None \<and> selectedBinding st \<noteq> None)"

definition paramOfBinding :: "ParamName \<Rightarrow> BehaviorBinding \<Rightarrow> int" where
  "paramOfBinding p b = (case p of Param1 \<Rightarrow> param1 b | Param2 \<Rightarrow> param2 b)"

text \<open>
  The mod-tap tail of \<open>onUsageClicked\<close>. \<open>choices[0].constant!\<close> is the constant of
  the first choice; every choice has one, since \<open>collectConstantChoices\<close> keeps only
  descriptions with a constant.
\<close>

definition modTapClicked ::
  "(string \<Rightarrow> string \<Rightarrow> int) \<Rightarrow> PanelState \<Rightarrow> int \<Rightarrow> BehaviorBinding option" where
  "modTapClicked cmp st usage =
     (if behaviorGroup st \<noteq> GroupModTap then None
      else case modTapBehavior st of
        None \<Rightarrow> None
      | Some mt \<Rightarrow>
          (case inferModTapParamOrder mt of
             None \<Rightarrow> None
           | Some order \<Rightarrow>
               (case collectConstantChoices cmp mt (modParam order) of
                  [] \<Rightarrow> None
                | c # _ \<Rightarrow>
                    (case (case modTapModifierValue st of Some v \<Rightarrow> Some v | None \<Rightarrow> constantValue c) of
                       None \<Rightarrow> None
                     | Some modValue \<Rightarrow>
                         Some \<lparr>behaviorId = behavior_id mt,
                               param1 = (if modParam order = Param1 then modValue else usage),
                               param2 = (if modParam order = Param2 then modValue else usage)\<rparr>))))"

definition onUsageClicked ::
  "(string \<Rightarrow> string \<Rightarrow> int) \<Rightarrow> PanelState \<Rightarrow> int \<Rightarrow> BehaviorBinding option" where
  "onUsageClicked cmp st usage =
     (if \<not> canEdit st then None
      else if behaviorGroup st = GroupKey then
        (case quickBehavior st of
           None \<Rightarrow> None
         | Some q \<Rightarrow> Some \<lparr>behaviorId = behavior_id q, param1 = usage, param2 = 0\<rparr>)
      else if behaviorGroup st \<noteq> GroupLayerTap \<or> layerTapBehavior st = None
                \<or> layerTapTargetLayerId st = None
        then modTapClicked cmp st usage
      else
        (case (layerTapBehavior st, layerTapTargetLayerId st) of
           (Some lt, Some target) \<Rightarrow>
             (case inferLayerTapParamOrder lt of
                None \<Rightarrow> None
              | Some order \<Rightarrow>
                  Some (if layerParam order = Param1
                        then \<lparr>behaviorId = behavior_id lt, param1 = target, param2 = usage\<rparr>
                        else \<lparr>behaviorId = behavior_id lt, param1 = usage, param2 = target\<rparr>))
         | _ \<Rightarrow> None))"

text \<open>
  The effect that reads the layer out of the selected binding: the layer id it passes
  to \<open>setLayerTapTargetLayerId\<close>, or \<open>None\<close> when it returns early.
\<close>

definition layerTapLayerOfBinding ::
  "BehaviorBinding option \<Rightarrow> int option \<Rightarrow> GetBehaviorDetailsResponse list \<Rightarrow>
   PanelLayer list \<Rightarrow> int option" where
  "layerTapLayerOfBinding selBinding layerTapBehaviorId layerTapBehaviors layers =
     (case (selBinding, layerTapBehaviorId) of
        (Some b, Some ltId) \<Rightarrow>
          (if behaviorId b \<noteq> ltId then None
           else case find (\<lambda>x. behavior_id x = ltId) layerTapBehaviors of
             None \<Rightarrow> None
           | Some behavior \<Rightarrow>
               (case inferLayerTapParamOrder behavior of
                  None \<Rightarrow> None
                | Some order \<Rightarrow>
                    (let lid = (if layerParam order = Param1 then param1 b else param2 b)
                     in if list_ex (\<lambda>l. panelLayer_id l = lid) layers then Some lid else None)))
      | _ \<Rightarrow> None)"

definition activeLayerTapUsage ::
  "GetBehaviorDetailsResponse option \<Rightarrow> BehaviorBinding option \<Rightarrow> int option" where
  "activeLayerTapUsage ltBehavior selBinding =
     (case (ltBehavior, selBinding) of
        (Some lt, Some b) \<Rightarrow>
          (if behaviorId b \<noteq> behavior_id lt then None
           else case inferLayerTapParamOrder lt of
             None \<Rightarrow> None
           | Some order \<Rightarrow> Some (if usageParam order = Param1 then param1 b else param2 b))
      | _ \<Rightarrow> None)"

subsection \<open>The bluetooth picker\<close>











definition resolvedProfileParam :: "BluetoothOrder \<Rightarrow> ParamName" where
  "resolvedProfileParam order =
     (case profileParam order of
        Some p \<Rightarrow> p
      | None \<Rightarrow> (if actionParam order = Param1 then Param2 else Param1))"





text \<open>
  The binding the picker hands to \<open>onBindingChanged\<close>. The action constant and 0 are
  integers; the profile is whatever the panel holds, which may be \<open>NaN\<close>.
\<close>

record EmittedBinding =
  out_behaviorId :: int
  out_param1 :: jsnum
  out_param2 :: jsnum

definition bluetoothBinding ::
  "GetBehaviorDetailsResponse \<Rightarrow> BluetoothOrder \<Rightarrow> int \<Rightarrow> bool \<Rightarrow> jsnum \<Rightarrow> EmittedBinding" where
  "bluetoothBinding b order actionValue placeProfile profile =
     \<lparr>out_behaviorId = behavior_id b,
      out_param1 = (if actionParam order = Param1 then Num actionValue
                    else if placeProfile \<and> resolvedProfileParam order = Param1 then profile else Num 0),
      out_param2 = (if actionParam order = Param2 then Num actionValue
                    else if placeProfile \<and> resolvedProfileParam order = Param2 then profile else Num 0)\<rparr>"



subsection \<open>Letters of the palette\<close>

text \<open>
  \<open>letterUsageId\<close> upper-cases its argument and reads the code of the first
  character; \<open>charCodeAt(0)\<close> of the empty string is \<open>NaN\<close>, which passes both
  comparisons and makes the result \<open>NaN\<close>. A thrown \<open>Error\<close> is \<open>Inl\<close> of its message.
\<close>

definition letterUsageId :: "string \<Rightarrow> string + jsnum" where
  "letterUsageId letter =
     (case toUpperCase letter of
        [] \<Rightarrow> Inr NaN
      | c # _ \<Rightarrow>
          (let code = int (of_char c)
           in if code < 65 \<or> code > 90 then Inl (''Invalid letter: '' @ letter)
              else Inr (Num (4 + (code - 65)))))"

text \<open>
  A key of the palette: the HID page and id its usage is made of, and its label when
  the source gives one (\<open>None\<close>: the label is looked up from the usage). The widths,
  which only lay the keys out, are left out.
\<close>

record KeySpec =
  key_page :: int
  key_id :: jsnum
  key_label :: "string option"

definition KEYBOARD_PAGE :: int where
  "KEYBOARD_PAGE = 7"

definition makeKeyboardSpec :: "int \<Rightarrow> jsnum \<Rightarrow> KeySpec" where
  "makeKeyboardSpec page i = \<lparr>key_page = page, key_id = i, key_label = None\<rparr>"

definition makeKeyboardSpecWithLabel :: "int \<Rightarrow> int \<Rightarrow> string \<Rightarrow> KeySpec" where
  "makeKeyboardSpecWithLabel page i label = \<lparr>key_page = page, key_id = Num i, key_label = Some label\<rparr>"

text \<open>\<open>letters.split("").map((l) => makeKeyboardSpec(KEYBOARD_PAGE, letterUsageId(l)))\<close>\<close>

fun letterSpecs :: "string \<Rightarrow> string + KeySpec list" where
  "letterSpecs [] = Inr []"
| "letterSpecs (l # ls) =
     (case letterUsageId [l] of
        Inl e \<Rightarrow> Inl e
      | Inr n \<Rightarrow>
          (case letterSpecs ls of
             Inl e \<Rightarrow> Inl e
           | Inr ks \<Rightarrow> Inr (makeKeyboardSpec KEYBOARD_PAGE n # ks)))"

definition letterRow :: "KeySpec list \<Rightarrow> string \<Rightarrow> KeySpec list \<Rightarrow> string + KeySpec list" where
  "letterRow before letters after =
     (case letterSpecs letters of Inl e \<Rightarrow> Inl e | Inr ks \<Rightarrow> Inr (before @ ks @ after))"

text \<open>The rows of the category \<open>main\<close>, the only ones built with \<open>letterUsageId\<close>.\<close>

definition paletteRowsMain :: "string + KeySpec list list" where
  "paletteRowsMain =
     (let row1 = [makeKeyboardSpecWithLabel KEYBOARD_PAGE 41 ''Esc'',
                  makeKeyboardSpecWithLabel KEYBOARD_PAGE 53 ''`'']
                 @ map (\<lambda>i. makeKeyboardSpec KEYBOARD_PAGE (Num (30 + int i))) [0..<10]
                 @ [makeKeyboardSpecWithLabel KEYBOARD_PAGE 45 ''-'',
                    makeKeyboardSpecWithLabel KEYBOARD_PAGE 46 ''='',
                    makeKeyboardSpecWithLabel KEYBOARD_PAGE 42 ''Backspace''];
          row5 = [makeKeyboardSpecWithLabel KEYBOARD_PAGE 224 ''LCtrl'',
                  makeKeyboardSpecWithLabel KEYBOARD_PAGE 227 ''LGui'',
                  makeKeyboardSpecWithLabel KEYBOARD_PAGE 226 ''LAlt'',
                  makeKeyboardSpecWithLabel KEYBOARD_PAGE 44 ''Space'',
                  makeKeyboardSpecWithLabel KEYBOARD_PAGE 230 ''RAlt'',
                  makeKeyboardSpecWithLabel KEYBOARD_PAGE 231 ''RGui'',
                  makeKeyboardSpecWithLabel KEYBOARD_PAGE 228 ''RCtrl'']
      in case letterRow [makeKeyboardSpecWithLabel KEYBOARD_PAGE 43 ''Tab''] ''QWERTYUIOP''
                [makeKeyboardSpec KEYBOARD_PAGE (Num 47), makeKeyboardSpec KEYBOARD_PAGE (Num 48),
                 makeKeyboardSpec KEYBOARD_PAGE (Num 49)] of
           Inl e \<Rightarrow> Inl e
         | Inr row2 \<Rightarrow>
             (case letterRow [makeKeyboardSpecWithLabel KEYBOARD_PAGE 57 ''Caps''] ''ASDFGHJKL''
                     [makeKeyboardSpec KEYBOARD_PAGE (Num 51), makeKeyboardSpec KEYBOARD_PAGE (Num 52),
                      makeKeyboardSpecWithLabel KEYBOARD_PAGE 40 ''Enter''] of
                Inl e \<Rightarrow> Inl e
              | Inr row3 \<Rightarrow>
                  (case letterRow [makeKeyboardSpecWithLabel KEYBOARD_PAGE 225 ''LShift''] ''ZXCVBNM''
                          [makeKeyboardSpec KEYBOARD_PAGE (Num 54), makeKeyboardSpec KEYBOARD_PAGE (Num 55),
                           makeKeyboardSpec KEYBOARD_PAGE (Num 56),
                           makeKeyboardSpecWithLabel KEYBOARD_PAGE 229 ''RShift''] of
                     Inl e \<Rightarrow> Inl e
                   | Inr row4 \<Rightarrow> Inr [row1, row2, row3, row4, row5])))"

section \<open>The keymap replica and its edits (Keyboard)\<close>

text \<open>
  The editor keeps a copy of the device's keymap in React state and changes it with
  \<open>setKeymap(produce(recipe))\<close>, so a recipe is a function on the keymap held at that
  moment. An array read outside its bounds is \<open>undefined\<close>, and a property read from
  \<open>undefined\<close> throws a \<open>TypeError\<close>; a write past the end of an array extends it,
  leaving holes. The bindings of a layer are therefore a list of optional bindings,
  \<open>None\<close> being a hole or \<open>undefined\<close>; the device sends none.
\<close>

datatype thrown = TypeError | Error string

datatype SetLayerBindingResponse = SET_LAYER_BINDING_RESP_OK | SET_LAYER_BINDING_RESP_OTHER int

datatype LockState = ZMK_STUDIO_CORE_LOCK_STATE_LOCKED | ZMK_STUDIO_CORE_LOCK_STATE_UNLOCKED

record Layer =
  layer_id :: int
  layer_name :: string
  bindings :: "BehaviorBinding option list"

record Keymap =
  layers :: "Layer list"
  availableLayers :: int
  maxLayerNameLength :: int

record SetLayerBindingRequest =
  req_layerId :: int
  req_keyPosition :: nat
  req_binding :: "BehaviorBinding option"

definition arrayGet :: "'a list \<Rightarrow> int \<Rightarrow> 'a option" where
  "arrayGet xs i = (if 0 \<le> i \<and> i < int (length xs) then Some (xs ! nat i) else None)"

definition bindingAt :: "BehaviorBinding option list \<Rightarrow> nat \<Rightarrow> BehaviorBinding option" where
  "bindingAt bs k = (if k < length bs then bs ! k else None)"

definition arraySet :: "'a option list \<Rightarrow> nat \<Rightarrow> 'a option \<Rightarrow> 'a option list" where
  "arraySet xs k v =
     (if k < length xs then xs[k := v] else xs @ replicate (k - length xs) None @ [v])"

text \<open>The recipe \<open>draft.layers[layer].bindings[keyPosition] = binding\<close>.\<close>

definition setBindingRecipe ::
  "int \<Rightarrow> nat \<Rightarrow> BehaviorBinding option \<Rightarrow> Keymap \<Rightarrow> thrown + Keymap" where
  "setBindingRecipe layer keyPosition v km =
     (case arrayGet (layers km) layer of
        None \<Rightarrow> Inl TypeError
      | Some ly \<Rightarrow>
          Inr (km\<lparr>layers := (layers km)[nat layer :=
                 ly\<lparr>bindings := arraySet (bindings ly) keyPosition v\<rparr>]\<rparr>))"

subsection \<open>Setting one binding\<close>

text \<open>
  \<open>doUpdateBinding\<close> captures the selected layer, its id, the key position and the
  binding now at that place, and hands the undo stack a forward action and, from it,
  an inverse. The captured values are the record below; the two closures are the
  functions \<open>performSetBinding\<close> and \<open>undoSetBinding\<close> on the requests sent so far
  and the keymap held. \<open>resp\<close> is the \<open>setLayerBinding\<close> field of the device's answer.
\<close>

record SetBindingEdit =
  edit_layer :: int
  edit_layerId :: int
  edit_keyPosition :: nat
  edit_binding :: BehaviorBinding
  edit_oldBinding :: "BehaviorBinding option"

record Session =
  replica :: Keymap
  sent :: "SetLayerBindingRequest list"

definition doUpdateBinding ::
  "Keymap option \<Rightarrow> nat option \<Rightarrow> int \<Rightarrow> BehaviorBinding \<Rightarrow> thrown + SetBindingEdit option" where
  "doUpdateBinding keymap selKeyPosition selLayerIndex binding =
     (case (keymap, selKeyPosition) of
        (Some km, Some keyPosition) \<Rightarrow>
          (case arrayGet (layers km) selLayerIndex of
             None \<Rightarrow> Inl TypeError
           | Some ly \<Rightarrow>
               Inr (Some \<lparr>edit_layer = selLayerIndex, edit_layerId = layer_id ly,
                          edit_keyPosition = keyPosition, edit_binding = binding,
                          edit_oldBinding = bindingAt (bindings ly) keyPosition\<rparr>))
      | _ \<Rightarrow> Inr None)"

definition performSetBinding ::
  "bool \<Rightarrow> SetBindingEdit \<Rightarrow> SetLayerBindingResponse option \<Rightarrow> Session \<Rightarrow> thrown + Session" where
  "performSetBinding connected e resp s =
     (if \<not> connected then Inl (Error ''Not connected'')
      else
        (let s1 = s\<lparr>sent := sent s @ [\<lparr>req_layerId = edit_layerId e,
                                        req_keyPosition = edit_keyPosition e,
                                        req_binding = Some (edit_binding e)\<rparr>]\<rparr>
         in if resp = Some SET_LAYER_BINDING_RESP_OK then
              (case setBindingRecipe (edit_layer e) (edit_keyPosition e) (Some (edit_binding e))
                      (replica s1) of
                 Inl err \<Rightarrow> Inl err
               | Inr km \<Rightarrow> Inr (s1\<lparr>replica := km\<rparr>))
            else Inr s1))"

definition undoSetBinding ::
  "bool \<Rightarrow> SetBindingEdit \<Rightarrow> SetLayerBindingResponse option \<Rightarrow> Session \<Rightarrow> thrown + Session" where
  "undoSetBinding connected e resp s =
     (if \<not> connected then Inr s
      else
        (let s1 = s\<lparr>sent := sent s @ [\<lparr>req_layerId = edit_layerId e,
                                        req_keyPosition = edit_keyPosition e,
                                        req_binding = edit_oldBinding e\<rparr>]\<rparr>
         in if resp = Some SET_LAYER_BINDING_RESP_OK then
              (case setBindingRecipe (edit_layer e) (edit_keyPosition e) (edit_oldBinding e)
                      (replica s1) of
                 Inl err \<Rightarrow> Inl err
               | Inr km \<Rightarrow> Inr (s1\<lparr>replica := km\<rparr>))
            else Inr s1))"

subsection \<open>Removing a layer\<close>

text \<open>\<open>xs.splice(i, 1)\<close>: a negative start counts from the end, a start past the end removes nothing.\<close>

definition spliceOne :: "'a list \<Rightarrow> int \<Rightarrow> 'a list" where
  "spliceOne xs i =
     (let len = int (length xs);
          start = nat (if i < 0 then max (len + i) 0 else min i len)
      in take start xs @ drop (Suc start) xs)"

record EditorState =
  es_keymap :: "Keymap option"
  es_selectedLayerIndex :: int

definition removeLayerRecipe :: "int \<Rightarrow> Keymap option \<Rightarrow> thrown + Keymap option" where
  "removeLayerRecipe layerIndex keymap =
     (case keymap of
        None \<Rightarrow> Inl TypeError
      | Some km \<Rightarrow>
          Inr (Some (km\<lparr>layers := spliceOne (layers km) layerIndex,
                        availableLayers := availableLayers km + 1\<rparr>)))"

text \<open>The layer picker offers removal only while \<open>canRemove\<close> holds.\<close>

definition canRemove :: "Keymap \<Rightarrow> bool" where
  "canRemove km = (length (layers km) > 1)"

text \<open>
  \<open>removeLayer\<close> reads the selected index and the id of that layer; \<open>doRemove\<close> is its
  forward action, run with the keymap \<open>removeLayer\<close> closed over and the device's
  verdict \<open>ok\<close>. The undo of \<open>addLayer\<close> has a \<open>doRemove\<close> of its own, which leaves the
  selection alone.
\<close>

definition removeLayer :: "Keymap option \<Rightarrow> int \<Rightarrow> thrown + (int \<times> int)" where
  "removeLayer keymap selLayerIndex =
     (case keymap of
        None \<Rightarrow> Inl (Error ''No keymap loaded'')
      | Some km \<Rightarrow>
          (case arrayGet (layers km) selLayerIndex of
             None \<Rightarrow> Inl TypeError
           | Some ly \<Rightarrow> Inr (selLayerIndex, layer_id ly)))"

definition removeLayer_doRemove ::
  "bool \<Rightarrow> Keymap option \<Rightarrow> int \<Rightarrow> bool \<Rightarrow> EditorState \<Rightarrow> thrown + EditorState" where
  "removeLayer_doRemove connected keymap layerIndex ok st =
     (case (connected, keymap) of
        (True, Some km) \<Rightarrow>
          (if ok then
             (let st1 = (if layerIndex = int (length (layers km)) - 1
                         then st\<lparr>es_selectedLayerIndex := layerIndex - 1\<rparr> else st)
              in case removeLayerRecipe layerIndex (es_keymap st1) of
                   Inl err \<Rightarrow> Inl err
                 | Inr km' \<Rightarrow> Inr (st1\<lparr>es_keymap := km'\<rparr>))
           else Inl (Error ''Failed to remove layer''))
      | _ \<Rightarrow> Inl (Error ''Not connected''))"

definition addLayer_doRemove ::
  "bool \<Rightarrow> int \<Rightarrow> bool \<Rightarrow> EditorState \<Rightarrow> thrown + EditorState" where
  "addLayer_doRemove connected layerIndex ok st =
     (if \<not> connected then Inl (Error ''Not connected'')
      else if ok then
        (case removeLayerRecipe layerIndex (es_keymap st) of
           Inl err \<Rightarrow> Inl err
         | Inr km' \<Rightarrow> Inr (st\<lparr>es_keymap := km'\<rparr>))
      else Inl (Error ''Failed to remove layer''))"

text \<open>The effect that runs whenever the keymap or the selected index has changed.\<close>

definition clampSelectedLayer :: "EditorState \<Rightarrow> EditorState" where
  "clampSelectedLayer st =
     (case es_keymap st of
        None \<Rightarrow> st
      | Some km \<Rightarrow>
          (let last_index = int (length (layers km)) - 1
           in if es_selectedLayerIndex st > last_index
              then st\<lparr>es_selectedLayerIndex := last_index\<rparr> else st))"

subsection \<open>Importing a keymap file\<close>

text \<open>
  The imported file is parsed JSON. Of the parsed value the import reads three places
  where the layers may stand, each falsy, a truthy value that is no array, or an
  array; a layer's \<open>bindings\<close>, an array or not; and the entries of that array, each
  falsy or an object whose three fields are numbers when present
  (\<open>x ?? 0\<close> reads a missing one as 0).
\<close>

record ImportedBinding =
  imp_behaviorId :: "int option"
  imp_param1 :: "int option"
  imp_param2 :: "int option"

type_synonym ImportedLayer = "ImportedBinding option list option"

datatype JsLayers = Falsy | NotArray | Array "ImportedLayer list"

record ParsedDocument =
  doc_keymap_layers :: JsLayers
  doc_layers :: JsLayers
  doc_keymap_getKeymap_layers :: JsLayers

datatype ImportedFile = InvalidJson | Parsed ParsedDocument

definition orElse :: "JsLayers \<Rightarrow> JsLayers \<Rightarrow> JsLayers" where
  "orElse a b = (if a = Falsy then b else a)"

definition importedLayersOf :: "ParsedDocument \<Rightarrow> JsLayers" where
  "importedLayersOf doc =
     orElse (orElse (doc_keymap_layers doc) (doc_layers doc)) (doc_keymap_getKeymap_layers doc)"

definition bindingOfImported :: "ImportedBinding \<Rightarrow> BehaviorBinding" where
  "bindingOfImported nb =
     \<lparr>behaviorId = orZero (imp_behaviorId nb), param1 = orZero (imp_param1 nb),
      param2 = orZero (imp_param2 nb)\<rparr>"

text \<open>
  The device is a state machine that answers each request. The import threads the
  keymap held, the requests sent, the device and the alerts shown; it runs to the end,
  returns after a rejection, or throws.
\<close>

record 'd ImportState =
  imp_replica :: Keymap
  imp_sent :: "SetLayerBindingRequest list"
  imp_device :: 'd
  imp_alerts :: "string list"

datatype Flow = Completed | Returned | Threw thrown

function importKeys ::
  "('d \<Rightarrow> SetLayerBindingRequest \<Rightarrow> SetLayerBindingResponse option \<times> 'd) \<Rightarrow> nat \<Rightarrow> int \<Rightarrow>
   BehaviorBinding option list \<Rightarrow> ImportedBinding option list \<Rightarrow> nat \<Rightarrow> nat \<Rightarrow>
   'd ImportState \<Rightarrow> Flow \<times> 'd ImportState" where
  "importKeys dev layerIndex lid currentBindings nextBindings maxKeys keyPosition st =
     (if keyPosition < maxKeys then
        (case (if keyPosition < length nextBindings then nextBindings ! keyPosition else None) of
           None \<Rightarrow>
             importKeys dev layerIndex lid currentBindings nextBindings maxKeys
               (Suc keyPosition) st
         | Some nextBinding \<Rightarrow>
             (case bindingAt currentBindings keyPosition of
                None \<Rightarrow> (Threw TypeError, st)
              | Some oldBinding \<Rightarrow>
                  (if oldBinding = bindingOfImported nextBinding then
                     importKeys dev layerIndex lid currentBindings nextBindings maxKeys
                       (Suc keyPosition) st
                   else
                     (let req = \<lparr>req_layerId = lid, req_keyPosition = keyPosition,
                                 req_binding = Some (bindingOfImported nextBinding)\<rparr>;
                          answer = dev (imp_device st) req;
                          st1 = st\<lparr>imp_sent := imp_sent st @ [req], imp_device := snd answer\<rparr>
                      in if fst answer \<noteq> Some SET_LAYER_BINDING_RESP_OK then
                           (Returned,
                            st1\<lparr>imp_alerts := imp_alerts st1
                                   @ [''Failed to import keymap (setLayerBinding error)'']\<rparr>)
                         else
                           (case setBindingRecipe (int layerIndex) keyPosition
                                   (Some (bindingOfImported nextBinding)) (imp_replica st1) of
                              Inl err \<Rightarrow> (Threw err, st1)
                            | Inr km \<Rightarrow>
                                importKeys dev layerIndex lid currentBindings nextBindings
                                  maxKeys (Suc keyPosition) (st1\<lparr>imp_replica := km\<rparr>))))))
      else (Completed, st))"
  by pat_completeness auto
termination
  by (relation "measure (\<lambda>(dev, li, lid, cur, nxt, maxKeys, k, st). maxKeys - k)") auto

function importLayers ::
  "('d \<Rightarrow> SetLayerBindingRequest \<Rightarrow> SetLayerBindingResponse option \<times> 'd) \<Rightarrow> Keymap \<Rightarrow>
   ImportedLayer list \<Rightarrow> nat \<Rightarrow> nat \<Rightarrow> 'd ImportState \<Rightarrow> Flow \<times> 'd ImportState" where
  "importLayers dev keymap importedLayers maxLayers layerIndex st =
     (if layerIndex < maxLayers then
        (case arrayGet (layers keymap) (int layerIndex) of
           None \<Rightarrow> (Threw TypeError, st)
         | Some ly \<Rightarrow>
             (case (if layerIndex < length importedLayers then importedLayers ! layerIndex else None) of
                None \<Rightarrow> importLayers dev keymap importedLayers maxLayers (Suc layerIndex) st
              | Some nextBindings \<Rightarrow>
                  (case importKeys dev layerIndex (layer_id ly) (bindings ly) nextBindings
                          (min (length (bindings ly)) (length nextBindings)) 0 st of
                     (Completed, st') \<Rightarrow>
                       importLayers dev keymap importedLayers maxLayers (Suc layerIndex) st'
                   | other \<Rightarrow> other)))
      else (Completed, st))"
  by pat_completeness auto
termination
  by (relation "measure (\<lambda>(dev, km, imported, maxLayers, li, st). maxLayers - li)") auto

datatype 'd ImportOutcome = Refused string | Ran Flow "'d ImportState"

definition importKeymap ::
  "('d \<Rightarrow> SetLayerBindingRequest \<Rightarrow> SetLayerBindingResponse option \<times> 'd) \<Rightarrow> bool \<Rightarrow> LockState \<Rightarrow>
   Keymap option \<Rightarrow> ImportedFile \<Rightarrow> 'd \<Rightarrow> 'd ImportOutcome" where
  "importKeymap dev connected lockState keymap file d0 =
     (if \<not> connected then Refused ''Not connected''
      else if lockState \<noteq> ZMK_STUDIO_CORE_LOCK_STATE_UNLOCKED
        then Refused ''Unlock the device to import a keymap''
      else case keymap of
        None \<Rightarrow> Refused ''Keymap not loaded yet''
      | Some km \<Rightarrow>
          (case file of
             InvalidJson \<Rightarrow> Refused ''Invalid JSON file''
           | Parsed doc \<Rightarrow>
               (case importedLayersOf doc of
                  Array importedLayers \<Rightarrow>
                    (if length importedLayers = 0
                     then Refused ''Invalid keymap format (missing layers)''
                     else
                       (case importLayers dev km importedLayers
                               (min (length (layers km)) (length importedLayers)) 0
                               \<lparr>imp_replica = km, imp_sent = [], imp_device = d0, imp_alerts = []\<rparr> of
                          (flow, st) \<Rightarrow> Ran flow st))
                | _ \<Rightarrow> Refused ''Invalid keymap format (missing layers)'')))"

subsection \<open>Notions of the specification\<close>

text \<open>
  The specification speaks of a metadata set that cleanly separates the layer from the
  usage: one parameter described by layer-id descriptions only, the other by HID-usage
  descriptions only. The three definitions below follow those words, not the sources.
\<close>

definition spec_layerIdOnly :: "BehaviorParameterValueDescription list \<Rightarrow> bool" where
  "spec_layerIdOnly ps =
     (ps \<noteq> [] \<and> list_all (\<lambda>p. layerId p \<noteq> None \<and> hidUsage p = None \<and> constantValue p = None
                              \<and> valueRange p = None) ps)"

definition spec_usageOnly :: "BehaviorParameterValueDescription list \<Rightarrow> bool" where
  "spec_usageOnly ps =
     (ps \<noteq> [] \<and> list_all (\<lambda>p. hidUsage p \<noteq> None \<and> layerId p = None \<and> constantValue p = None
                              \<and> valueRange p = None) ps)"

definition spec_cleanlySeparates :: "BehaviorBindingParametersSet \<Rightarrow> bool" where
  "spec_cleanlySeparates s =
     ((spec_layerIdOnly (set_param1 s) \<and> spec_usageOnly (set_param2 s))
      \<or> (spec_layerIdOnly (set_param2 s) \<and> spec_usageOnly (set_param1 s)))"

text \<open>The keymap with the binding of one key of one layer replaced.\<close>

definition withBinding :: "Keymap \<Rightarrow> nat \<Rightarrow> nat \<Rightarrow> BehaviorBinding option \<Rightarrow> Keymap" where
  "withBinding km l k v =
     km\<lparr>layers := (layers km)[l := (layers km ! l)\<lparr>bindings := arraySet (bindings (layers km ! l)) k v\<rparr>]\<rparr>"

text \<open>
  For the bluetooth group the specification speaks of the overlap of a parameter's
  constant labels with the six action labels, matched exactly but for case and white
  space, and of a parameter that is the only one with constants while the other has
  no descriptors at all. The definitions below follow those words.
\<close>

definition spec_isWhitespace :: "char \<Rightarrow> bool" where
  "spec_isWhitespace c = (let n = (of_char c :: nat) in (9 \<le> n \<and> n \<le> 13) \<or> n = 32)"

definition spec_labelMatches :: "string \<Rightarrow> string \<Rightarrow> bool" where
  "spec_labelMatches a b =
     (filter (\<lambda>c. \<not> spec_isWhitespace c) (toLowerCase a)
        = filter (\<lambda>c. \<not> spec_isWhitespace c) (toLowerCase b))"

definition spec_overlap :: "GetBehaviorDetailsResponse \<Rightarrow> ParamName \<Rightarrow> nat" where
  "spec_overlap b p =
     length (filter (\<lambda>label. list_ex (\<lambda>d. constantValue d \<noteq> None \<and> spec_labelMatches (name d) label)
                                 (concat (map (paramOfSet p) (metadata b))))
               BT_ACTION_LABELS)"

definition spec_onlyParamWithConstants :: "GetBehaviorDetailsResponse \<Rightarrow> ParamName \<Rightarrow> bool" where
  "spec_onlyParamWithConstants b p =
     (list_ex (\<lambda>d. constantValue d \<noteq> None) (concat (map (paramOfSet p) (metadata b)))
      \<and> concat (map (paramOfSet (otherParamName p)) (metadata b)) = [])"

subsection \<open>The import as a list of edits\<close>

text \<open>
  The specification describes the import as a list of edits: for every layer index
  below the smaller of the two layer counts whose imported layer has a binding array,
  and every key position below the smaller of the two key counts whose imported entry
  is present and differs from the binding held, one edit, in the order of the indices.
  The definitions of this subsection follow those words, not the sources: the edits,
  the request of an edit, the keymap after a list of edits, the number of requests
  the device accepts before its first rejection, and the run that sends the edits one
  by one and stops at the first rejection. A keymap is dense when none of its binding
  arrays has a hole, as every keymap read from the device is.
\<close>

type_synonym Edit = "nat \<times> nat \<times> BehaviorBinding"

definition requestOf :: "Keymap \<Rightarrow> Edit \<Rightarrow> SetLayerBindingRequest" where
  "requestOf km e =
     \<lparr>req_layerId = layer_id (layers km ! fst e), req_keyPosition = fst (snd e),
      req_binding = Some (snd (snd e))\<rparr>"

definition spec_keyEdit ::
  "nat \<Rightarrow> BehaviorBinding option list \<Rightarrow> ImportedBinding option list \<Rightarrow> nat \<Rightarrow> Edit list" where
  "spec_keyEdit li cur nxt k =
     (case nxt ! k of
        None \<Rightarrow> []
      | Some nb \<Rightarrow> (if cur ! k = Some (bindingOfImported nb) then [] else [(li, k, bindingOfImported nb)]))"

definition spec_keyEdits ::
  "nat \<Rightarrow> BehaviorBinding option list \<Rightarrow> ImportedBinding option list \<Rightarrow> Edit list" where
  "spec_keyEdits li cur nxt =
     concat (map (spec_keyEdit li cur nxt) [0..<min (length cur) (length nxt)])"

definition spec_layerEdits :: "Keymap \<Rightarrow> ImportedLayer list \<Rightarrow> nat \<Rightarrow> Edit list" where
  "spec_layerEdits km imported li =
     (case imported ! li of
        None \<Rightarrow> []
      | Some nxt \<Rightarrow> spec_keyEdits li (bindings (layers km ! li)) nxt)"

definition spec_pendingEdits :: "Keymap \<Rightarrow> ImportedLayer list \<Rightarrow> Edit list" where
  "spec_pendingEdits km imported =
     concat (map (spec_layerEdits km imported) [0..<min (length (layers km)) (length imported)])"

fun applyEdits :: "Keymap \<Rightarrow> Edit list \<Rightarrow> Keymap" where
  "applyEdits km [] = km"
| "applyEdits km (e # es) = applyEdits (withBinding km (fst e) (fst (snd e)) (Some (snd (snd e)))) es"

fun deviceAnswers ::
  "('d \<Rightarrow> SetLayerBindingRequest \<Rightarrow> SetLayerBindingResponse option \<times> 'd) \<Rightarrow> 'd \<Rightarrow>
   SetLayerBindingRequest list \<Rightarrow> SetLayerBindingResponse option list" where
  "deviceAnswers dev d [] = []"
| "deviceAnswers dev d (r # rs) = fst (dev d r) # deviceAnswers dev (snd (dev d r)) rs"

definition acceptedCount ::
  "('d \<Rightarrow> SetLayerBindingRequest \<Rightarrow> SetLayerBindingResponse option \<times> 'd) \<Rightarrow> 'd \<Rightarrow>
   SetLayerBindingRequest list \<Rightarrow> nat" where
  "acceptedCount dev d reqs =
     length (takeWhile (\<lambda>a. a = Some SET_LAYER_BINDING_RESP_OK) (deviceAnswers dev d reqs))"

definition denseKeymap :: "Keymap \<Rightarrow> bool" where
  "denseKeymap km = list_all (\<lambda>ly. list_all (\<lambda>b. b \<noteq> None) (bindings ly)) (layers km)"

fun runEdits ::
  "('d \<Rightarrow> SetLayerBindingRequest \<Rightarrow> SetLayerBindingResponse option \<times> 'd) \<Rightarrow> Keymap \<Rightarrow>
   'd ImportState \<Rightarrow> Edit list \<Rightarrow> Flow \<times> 'd ImportState" where
  "runEdits dev km st [] = (Completed, st)"
| "runEdits dev km st (e # es) =
     (let req = requestOf km e;
          answer = dev (imp_device st) req;
          st1 = st\<lparr>imp_sent := imp_sent st @ [req], imp_device := snd answer\<rparr>
      in if fst answer \<noteq> Some SET_LAYER_BINDING_RESP_OK then
           (Returned,
            st1\<lparr>imp_alerts := imp_alerts st1 @ [''Failed to import keymap (setLayerBinding error)'']\<rparr>)
         else runEdits dev km
                (st1\<lparr>imp_replica := withBinding (imp_replica st1) (fst e) (fst (snd e))
                                       (Some (snd (snd e)))\<rparr>) es)"

subsection \<open>Names compared loosely\<close>

text \<open>
  What the panel does with names is stated below over the letters themselves,
  independently of \<open>normalizeName\<close>: two names are the same when they agree after
  white space, underscores and hyphens are dropped and the capitals \<open>A\<close> to \<open>Z\<close> are
  replaced by their small letters; and the match count of a parameter of a metadata
  set is the number of its descriptions that have a constant and whose name is, in
  that sense, one of the six action labels. The model of the JavaScript string
  functions is exact on ASCII text, which \<open>asciiNames\<close> demands of the names in a
  behaviour's metadata.
\<close>

definition asciiText :: "string \<Rightarrow> bool" where
  "asciiText s = list_all (\<lambda>c. (of_char c :: nat) < 128) s"

definition asciiNames :: "GetBehaviorDetailsResponse \<Rightarrow> bool" where
  "asciiNames b =
     list_all (\<lambda>s. list_all (\<lambda>d. asciiText (name d)) (set_param1 s @ set_param2 s)) (metadata b)"

definition stated_lowerChar :: "char \<Rightarrow> char" where
  "stated_lowerChar c =
     (case map_of (zip ''ABCDEFGHIJKLMNOPQRSTUVWXYZ'' ''abcdefghijklmnopqrstuvwxyz'') c of
        None \<Rightarrow> c
      | Some l \<Rightarrow> l)"

definition stated_ignored :: "char \<Rightarrow> bool" where
  "stated_ignored c =
     (c \<in> set [CHR '' '', CHR 0x09, CHR 0x0A, CHR 0x0B, CHR 0x0C, CHR 0x0D, CHR ''_'', CHR ''-''])"

definition stated_normalized :: "string \<Rightarrow> string" where
  "stated_normalized nm = map stated_lowerChar (filter (\<lambda>c. \<not> stated_ignored c) nm)"

definition stated_sameName :: "string \<Rightarrow> string \<Rightarrow> bool" where
  "stated_sameName a b = (stated_normalized a = stated_normalized b)"

definition stated_isActionName :: "string \<Rightarrow> bool" where
  "stated_isActionName nm =
     (\<exists>l\<in>set [''Next Profile'', ''Previous Profile'', ''Clear All Profiles'',
               ''Clear Selected Profile'', ''Select Profile'', ''Disconnect Profile''].
        stated_sameName nm l)"

definition stated_matchCount :: "BehaviorParameterValueDescription list \<Rightarrow> nat" where
  "stated_matchCount ps =
     length (filter (\<lambda>d. constantValue d \<noteq> None \<and> stated_isActionName (name d)) ps)"

section \<open>Inputs used in the examples\<close>

definition layerTapExample :: GetBehaviorDetailsResponse where
  "layerTapExample =
     \<lparr>behavior_id = 5, displayName = ''Layer-Tap'',
      metadata = [\<lparr>set_param1 = [\<lparr>name = ''Layer'', constantValue = None, valueRange = None,
                                  hidUsage = None, layerId = Some ()\<rparr>],
                   set_param2 = [\<lparr>name = ''Key'', constantValue = None, valueRange = None,
                                  hidUsage = Some \<lparr>keyboardMax = Some 231, consumerMax = Some 4095\<rparr>,
                                  layerId = None\<rparr>]\<rparr>]\<rparr>"

definition layerDescription :: BehaviorParameterValueDescription where
  "layerDescription = \<lparr>name = ''Layer'', constantValue = None, valueRange = None,
                        hidUsage = None, layerId = Some ()\<rparr>"

definition usageDescription :: BehaviorParameterValueDescription where
  "usageDescription = \<lparr>name = ''Key'', constantValue = None, valueRange = None,
                        hidUsage = Some \<lparr>keyboardMax = Some 231, consumerMax = Some 4095\<rparr>,
                        layerId = None\<rparr>"

definition mixedExample :: GetBehaviorDetailsResponse where
  "mixedExample =
     \<lparr>behavior_id = 6, displayName = ''Mixed'',
      metadata = [\<lparr>set_param1 = [layerDescription, usageDescription],
                   set_param2 = [layerDescription, usageDescription]\<rparr>]\<rparr>"

definition splitExample :: GetBehaviorDetailsResponse where
  "splitExample =
     \<lparr>behavior_id = 7, displayName = ''Split'',
      metadata = [\<lparr>set_param1 = [layerDescription], set_param2 = []\<rparr>,
                  \<lparr>set_param1 = [usageDescription], set_param2 = []\<rparr>]\<rparr>"

definition keyPressExample :: GetBehaviorDetailsResponse where
  "keyPressExample =
     \<lparr>behavior_id = 3, displayName = ''Key Press'',
      metadata = [\<lparr>set_param1 = [usageDescription], set_param2 = []\<rparr>]\<rparr>"

definition panelExample :: PanelState where
  "panelExample =
     \<lparr>selectedKeyPosition = Some 4,
      selectedBinding = Some \<lparr>behaviorId = 3, param1 = 458756, param2 = 0\<rparr>,
      behaviorGroup = GroupLayerTap,
      quickBehavior = Some keyPressExample,
      layerTapBehavior = Some layerTapExample,
      layerTapTargetLayerId = Some 2,
      modTapBehavior = None,
      modTapModifierValue = None,
      bluetoothBehavior = None,
      bluetoothActionValue = None,
      bluetoothProfileValue = None\<rparr>"

definition panelLayersExample :: "PanelLayer list" where
  "panelLayersExample =
     [\<lparr>panelLayer_id = 0, panelLayer_name = ''Base''\<rparr>,
      \<lparr>panelLayer_id = 2, panelLayer_name = ''Nav''\<rparr>]"

definition keymapExample :: Keymap where
  "keymapExample =
     \<lparr>layers =
        [\<lparr>layer_id = 10, layer_name = ''Base'',
          bindings = [Some \<lparr>behaviorId = 3, param1 = 4, param2 = 0\<rparr>,
                      Some \<lparr>behaviorId = 3, param1 = 5, param2 = 0\<rparr>,
                      Some \<lparr>behaviorId = 3, param1 = 6, param2 = 0\<rparr>]\<rparr>,
         \<lparr>layer_id = 11, layer_name = ''Nav'',
          bindings = [Some \<lparr>behaviorId = 3, param1 = 7, param2 = 0\<rparr>,
                      Some \<lparr>behaviorId = 3, param1 = 8, param2 = 0\<rparr>,
                      Some \<lparr>behaviorId = 3, param1 = 9, param2 = 0\<rparr>]\<rparr>,
         \<lparr>layer_id = 12, layer_name = ''Fn'',
          bindings = [Some \<lparr>behaviorId = 3, param1 = 1, param2 = 0\<rparr>,
                      Some \<lparr>behaviorId = 3, param1 = 2, param2 = 0\<rparr>,
                      Some \<lparr>behaviorId = 3, param1 = 3, param2 = 0\<rparr>]\<rparr>],
      availableLayers = 1, maxLayerNameLength = 20\<rparr>"

definition editExample :: SetBindingEdit where
  "editExample =
     \<lparr>edit_layer = 1, edit_layerId = 11, edit_keyPosition = 2,
      edit_binding = \<lparr>behaviorId = 3, param1 = 40, param2 = 0\<rparr>,
      edit_oldBinding = Some \<lparr>behaviorId = 3, param1 = 9, param2 = 0\<rparr>\<rparr>"

definition editorExample :: EditorState where
  "editorExample = \<lparr>es_keymap = Some keymapExample, es_selectedLayerIndex = 2\<rparr>"

definition constantDescription :: "string \<Rightarrow> int \<Rightarrow> BehaviorParameterValueDescription" where
  "constantDescription nm v =
     \<lparr>name = nm, constantValue = Some v, valueRange = None, hidUsage = None, layerId = None\<rparr>"

definition rangeDescription :: "string \<Rightarrow> int \<Rightarrow> int \<Rightarrow> BehaviorParameterValueDescription" where
  "rangeDescription nm lo hi =
     \<lparr>name = nm, constantValue = None, valueRange = Some (lo, hi), hidUsage = None, layerId = None\<rparr>"

definition sixActions :: "BehaviorParameterValueDescription list" where
  "sixActions =
     [constantDescription ''Clear Selected Profile'' 0, constantDescription ''Next Profile'' 1,
      constantDescription ''Previous Profile'' 2, constantDescription ''Select Profile'' 3,
      constantDescription ''Clear All Profiles'' 4, constantDescription ''Disconnect Profile'' 5]"

definition bluetoothExample :: GetBehaviorDetailsResponse where
  "bluetoothExample =
     \<lparr>behavior_id = 8, displayName = ''Bluetooth'',
      metadata = [\<lparr>set_param1 = sixActions, set_param2 = []\<rparr>]\<rparr>"

definition outputExample :: GetBehaviorDetailsResponse where
  "outputExample =
     \<lparr>behavior_id = 9, displayName = ''Output Selection'',
      metadata = [\<lparr>set_param1 = [constantDescription ''USB'' 0, constantDescription ''BLE'' 1],
                   set_param2 = []\<rparr>]\<rparr>"

definition constantOrRangeExample :: GetBehaviorDetailsResponse where
  "constantOrRangeExample =
     \<lparr>behavior_id = 12, displayName = ''Backlight'',
      metadata = [\<lparr>set_param1 = [constantDescription ''Toggle'' 0, rangeDescription ''Level'' 0 100],
                   set_param2 = []\<rparr>]\<rparr>"

definition laterSetExample :: GetBehaviorDetailsResponse where
  "laterSetExample =
     \<lparr>behavior_id = 13, displayName = ''Bluetooth'',
      metadata = [\<lparr>set_param1 = [constantDescription ''Next Profile'' 1], set_param2 = []\<rparr>,
                  \<lparr>set_param1 = [],
                   set_param2 = [constantDescription ''Select Profile'' 3,
                                 constantDescription ''Disconnect Profile'' 5]\<rparr>]\<rparr>"


definition rangeProfileExample :: GetBehaviorDetailsResponse where
  "rangeProfileExample =
     \<lparr>behavior_id = 14, displayName = ''Bluetooth'',
      metadata = [\<lparr>set_param1 = sixActions, set_param2 = [rangeDescription ''Profile'' 0 4]\<rparr>]\<rparr>"



definition importedBinding :: "int \<Rightarrow> ImportedBinding option" where
  "importedBinding p = Some \<lparr>imp_behaviorId = Some 3, imp_param1 = Some p, imp_param2 = None\<rparr>"

definition importedLayersExample :: "ImportedLayer list" where
  "importedLayersExample =
     [Some [importedBinding 20, importedBinding 21, importedBinding 22, importedBinding 23],
      Some [importedBinding 7, importedBinding 30]]"

definition importExample :: ParsedDocument where
  "importExample =
     \<lparr>doc_keymap_layers = Array importedLayersExample, doc_layers = Falsy,
      doc_keymap_getKeymap_layers = Falsy\<rparr>"

definition rejectThird :: "nat \<Rightarrow> SetLayerBindingRequest \<Rightarrow> SetLayerBindingResponse option \<times> nat" where
  "rejectThird d req =
     (if d < 2 then Some SET_LAYER_BINDING_RESP_OK else Some (SET_LAYER_BINDING_RESP_OTHER 1), Suc d)"

definition acceptAll :: "nat \<Rightarrow> SetLayerBindingRequest \<Rightarrow> SetLayerBindingResponse option \<times> nat" where
  "acceptAll d req = (Some SET_LAYER_BINDING_RESP_OK, Suc d)"

definition keyPress :: "int \<Rightarrow> BehaviorBinding" where
  "keyPress p = \<lparr>behaviorId = 3, param1 = p, param2 = 0\<rparr>"

definition looseNamesExample :: GetBehaviorDetailsResponse where
  "looseNamesExample =
     \<lparr>behavior_id = 15, displayName = ''Bluetooth'',
      metadata = [\<lparr>set_param1 = [constantDescription ''next_profile'' 1,
                                  constantDescription ''SELECT-PROFILE'' 3],
                   set_param2 = [rangeDescription ''Profile'' 0 4]\<rparr>]\<rparr>"


section \<open>Properties of the metadata queries\<close>

lemma find_split:
  "find P xs = Some x \<Longrightarrow> \<exists>pre post. xs = pre @ x # post \<and> P x \<and> (\<forall>y\<in>set pre. \<not> P y)"
proof (induction xs)
  case Nil
  then show ?case by simp
next
  case (Cons a xs)
  show ?case
  proof (cases "P a")
    case True
    with Cons.prems have "a = x" by simp
    with True have "a # xs = [] @ x # xs \<and> P x \<and> (\<forall>y\<in>set []. \<not> P y)" by simp
    then show ?thesis by blast
  next
    case False
    with Cons obtain pre post where "xs = pre @ x # post" "P x" "\<forall>y\<in>set pre. \<not> P y" by auto
    with False have "a # xs = (a # pre) @ x # post \<and> P x \<and> (\<forall>y\<in>set (a # pre). \<not> P y)" by simp
    then show ?thesis by blast
  qed
qed

lemma find_hid_None:
  "find (\<lambda>p. hidUsage p \<noteq> None) xs = None \<longleftrightarrow> \<not> list_ex (\<lambda>p. hidUsage p \<noteq> None) xs"
  by (induction xs) auto

lemma list_ex_concat_setParams:
  "list_ex P (concat (map setParams ms)) = list_ex (\<lambda>s. list_ex P (setParams s)) ms"
  by (induction ms) (auto simp: list_ex_iff)

lemma capsOf_find_None:
  "capsOf (find (\<lambda>p. hidUsage p \<noteq> None) xs) = None \<longleftrightarrow> find (\<lambda>p. hidUsage p \<noteq> None) xs = None"
  by (auto simp: capsOf_def split: option.splits dest: find_Some_iff[THEN iffD1])

text \<open>
  The later \<open>getHidUsageCaps\<close> answers \<open>null\<close> exactly for the behaviours without a
  HID-usage description on either parameter, and otherwise reports the first such
  description of the flattened metadata, a missing maximum read as 0.
\<close>

lemma getHidUsageCaps_None_iff:
  "getHidUsageCaps b = None \<longleftrightarrow> \<not> hasHidUsageParam b"
  unfolding getHidUsageCaps_def hasHidUsageParam_def
  by (simp only: capsOf_find_None find_hid_None list_ex_concat_setParams)

lemma getHidUsageCaps_Some:
  assumes "getHidUsageCaps b = Some caps"
  shows "\<exists>pre p post h. concat (map setParams (metadata b)) = pre @ p # post
           \<and> (\<forall>q\<in>set pre. hidUsage q = None) \<and> hidUsage p = Some h
           \<and> caps = \<lparr>caps_keyboardMax = orZero (keyboardMax h), caps_consumerMax = orZero (consumerMax h)\<rparr>"
proof -
  from assms obtain p h where f: "find (\<lambda>p. hidUsage p \<noteq> None) (concat (map setParams (metadata b))) = Some p"
    and h: "hidUsage p = Some h"
    and c: "caps = \<lparr>caps_keyboardMax = orZero (keyboardMax h), caps_consumerMax = orZero (consumerMax h)\<rparr>"
    by (auto simp: getHidUsageCaps_def capsOf_def split: option.splits)
  from find_split[OF f] obtain pre post where
    "concat (map setParams (metadata b)) = pre @ p # post" "\<forall>y\<in>set pre. \<not> hidUsage y \<noteq> None" by blast
  with h c show ?thesis by auto
qed

text \<open>
  Claim C6. The usage-capability query is to report the first HID-usage description on
  either parameter and to answer \<open>null\<close> only when there is none. The earlier panel's
  \<open>getHidUsageCaps\<close> reads \<open>param1\<close> alone: for a layer-tap behaviour whose usage stands
  on \<open>param2\<close> it answers \<open>null\<close>, although the behaviour has a HID-usage description
  and the later panel's \<open>getHidUsageCaps\<close> reports its two maxima.
\<close>

theorem getHidUsageCaps_first_misses_param2:
  "getHidUsageCaps_first layerTapExample = None
   \<and> hasHidUsageParam layerTapExample
   \<and> getHidUsageCaps layerTapExample = Some \<lparr>caps_keyboardMax = 231, caps_consumerMax = 4095\<rparr>"
  by (simp add: getHidUsageCaps_first_def getHidUsageCaps_def hasHidUsageParam_def layerTapExample_def
      capsOf_def setParams_def orZero_def)

section \<open>Layer-tap classification and codec\<close>

lemma layerTapOrderOfSets_None_iff:
  "layerTapOrderOfSets ms = None \<longleftrightarrow> \<not> list_ex separates ms"
  by (induction ms) (auto simp: separates_def)

lemma layerTapOrderOfSets_first:
  "\<not> list_ex separates pre \<Longrightarrow> separates s \<Longrightarrow>
   layerTapOrderOfSets (pre @ s # post) =
     Some (if p1HasLayer s \<and> p2HasUsage s then \<lparr>layerParam = Param1, usageParam = Param2\<rparr>
           else \<lparr>layerParam = Param2, usageParam = Param1\<rparr>)"
  by (induction pre) (auto simp: separates_def)

lemma layerTapOrder_cases:
  "layerTapOrderOfSets ms = Some order \<Longrightarrow>
   order = \<lparr>layerParam = Param1, usageParam = Param2\<rparr> \<or> order = \<lparr>layerParam = Param2, usageParam = Param1\<rparr>"
  by (induction ms) (auto split: if_splits)

lemma clean_separates: "spec_cleanlySeparates s \<Longrightarrow> separates s"
  by (cases "set_param1 s"; cases "set_param2 s")
     (auto simp: spec_cleanlySeparates_def separates_def spec_layerIdOnly_def spec_usageOnly_def
        p1HasLayer_def p2HasLayer_def p1HasUsage_def p2HasUsage_def)


text \<open>
  Claim C3, as stated, fails twice. A behaviour whose only set mixes layer-id and usage
  descriptions on both parameters has no set that cleanly separates the two, yet
  \<open>inferLayerTapParamOrder\<close> gives it a role mapping; and a behaviour without any role
  mapping is still listed by \<open>getQuickLayerTapBehaviors\<close>.
\<close>

theorem layerTap_counterexample:
  "\<not> list_ex spec_cleanlySeparates (metadata mixedExample)
   \<and> inferLayerTapParamOrder mixedExample = Some \<lparr>layerParam = Param1, usageParam = Param2\<rparr>
   \<and> inferLayerTapParamOrder splitExample = None
   \<and> splitExample \<in> set (getQuickLayerTapBehaviors [splitExample])"
  by (simp add: mixedExample_def splitExample_def spec_cleanlySeparates_def spec_layerIdOnly_def
      spec_usageOnly_def inferLayerTapParamOrder_def p1HasLayer_def p2HasLayer_def p1HasUsage_def
      p2HasUsage_def layerDescription_def usageDescription_def getQuickLayerTapBehaviors_def
      hasLayerIdParam_def hasHidUsageParam_def setParams_def)


lemma separates_iff:
  "separates s \<longleftrightarrow>
     ((\<exists>p\<in>set (set_param1 s). layerId p \<noteq> None) \<and> (\<exists>q\<in>set (set_param2 s). hidUsage q \<noteq> None))
     \<or> ((\<exists>p\<in>set (set_param2 s). layerId p \<noteq> None) \<and> (\<exists>q\<in>set (set_param1 s). hidUsage q \<noteq> None))"
  by (simp add: separates_def p1HasLayer_def p2HasLayer_def p1HasUsage_def p2HasUsage_def list_ex_iff)

lemma onUsageClicked_unmapped:
  "inferLayerTapParamOrder lt = None \<Longrightarrow> behaviorGroup st = GroupLayerTap \<Longrightarrow>
   layerTapBehavior st = Some lt \<Longrightarrow> onUsageClicked cmp st usage = None"
  by (cases "layerTapTargetLayerId st") (simp_all add: onUsageClicked_def modTapClicked_def)

text \<open>
  Claim C3, amended. A behaviour is listed in the layer-tap group exactly when some
  description of its metadata, on either parameter, has a layer id and some
  description has a HID usage. Its role mapping comes from the first set in which
  \<open>param1\<close> has a layer-id description and \<open>param2\<close> a usage description (layer on
  \<open>param1\<close>) or, failing that, \<open>param2\<close> has a layer-id description and \<open>param1\<close> a
  usage description (layer on \<open>param2\<close>), whatever else those parameters declare; there
  is no mapping exactly when no set is of that kind, and a set that cleanly separates
  the two always yields one. A behaviour without a mapping stays listed, and a click
  on a usage in the layer-tap group then emits no binding.
\<close>

theorem layerTap_classification:
  "(b \<in> set (getQuickLayerTapBehaviors bs) \<longleftrightarrow>
      b \<in> set bs
      \<and> (\<exists>s\<in>set (metadata b). \<exists>p\<in>set (set_param1 s) \<union> set (set_param2 s). layerId p \<noteq> None)
      \<and> (\<exists>s\<in>set (metadata b). \<exists>p\<in>set (set_param1 s) \<union> set (set_param2 s). hidUsage p \<noteq> None))
   \<and> (inferLayerTapParamOrder b = None \<longleftrightarrow>
        (\<forall>s\<in>set (metadata b).
           \<not> ((\<exists>p\<in>set (set_param1 s). layerId p \<noteq> None) \<and> (\<exists>q\<in>set (set_param2 s). hidUsage q \<noteq> None))
           \<and> \<not> ((\<exists>p\<in>set (set_param2 s). layerId p \<noteq> None) \<and> (\<exists>q\<in>set (set_param1 s). hidUsage q \<noteq> None))))
   \<and> (\<forall>pre s post.
         metadata b = pre @ s # post
         \<and> (\<forall>t\<in>set pre.
               \<not> ((\<exists>p\<in>set (set_param1 t). layerId p \<noteq> None) \<and> (\<exists>q\<in>set (set_param2 t). hidUsage q \<noteq> None))
               \<and> \<not> ((\<exists>p\<in>set (set_param2 t). layerId p \<noteq> None) \<and> (\<exists>q\<in>set (set_param1 t). hidUsage q \<noteq> None)))
         \<and> (\<exists>p\<in>set (set_param1 s). layerId p \<noteq> None) \<and> (\<exists>q\<in>set (set_param2 s). hidUsage q \<noteq> None) \<longrightarrow>
         inferLayerTapParamOrder b = Some \<lparr>layerParam = Param1, usageParam = Param2\<rparr>)
   \<and> (\<forall>pre s post.
         metadata b = pre @ s # post
         \<and> (\<forall>t\<in>set pre.
               \<not> ((\<exists>p\<in>set (set_param1 t). layerId p \<noteq> None) \<and> (\<exists>q\<in>set (set_param2 t). hidUsage q \<noteq> None))
               \<and> \<not> ((\<exists>p\<in>set (set_param2 t). layerId p \<noteq> None) \<and> (\<exists>q\<in>set (set_param1 t). hidUsage q \<noteq> None)))
         \<and> \<not> ((\<exists>p\<in>set (set_param1 s). layerId p \<noteq> None) \<and> (\<exists>q\<in>set (set_param2 s). hidUsage q \<noteq> None))
         \<and> (\<exists>p\<in>set (set_param2 s). layerId p \<noteq> None) \<and> (\<exists>q\<in>set (set_param1 s). hidUsage q \<noteq> None) \<longrightarrow>
         inferLayerTapParamOrder b = Some \<lparr>layerParam = Param2, usageParam = Param1\<rparr>)
   \<and> (list_ex spec_cleanlySeparates (metadata b) \<longrightarrow> inferLayerTapParamOrder b \<noteq> None)
   \<and> (inferLayerTapParamOrder b = None \<and> behaviorGroup st = GroupLayerTap \<and> layerTapBehavior st = Some b \<longrightarrow>
         onUsageClicked cmp st usage = None)"
proof (intro conjI allI impI)
  show "b \<in> set (getQuickLayerTapBehaviors bs) \<longleftrightarrow>
      b \<in> set bs
      \<and> (\<exists>s\<in>set (metadata b). \<exists>p\<in>set (set_param1 s) \<union> set (set_param2 s). layerId p \<noteq> None)
      \<and> (\<exists>s\<in>set (metadata b). \<exists>p\<in>set (set_param1 s) \<union> set (set_param2 s). hidUsage p \<noteq> None)"
    by (simp add: getQuickLayerTapBehaviors_def hasLayerIdParam_def hasHidUsageParam_def
        setParams_def list_ex_iff)
  show "inferLayerTapParamOrder b = None \<longleftrightarrow>
        (\<forall>s\<in>set (metadata b).
           \<not> ((\<exists>p\<in>set (set_param1 s). layerId p \<noteq> None) \<and> (\<exists>q\<in>set (set_param2 s). hidUsage q \<noteq> None))
           \<and> \<not> ((\<exists>p\<in>set (set_param2 s). layerId p \<noteq> None) \<and> (\<exists>q\<in>set (set_param1 s). hidUsage q \<noteq> None)))"
    unfolding inferLayerTapParamOrder_def layerTapOrderOfSets_None_iff list_ex_iff separates_iff
    by blast
next
  fix pre s post
  assume a: "metadata b = pre @ s # post
         \<and> (\<forall>t\<in>set pre.
               \<not> ((\<exists>p\<in>set (set_param1 t). layerId p \<noteq> None) \<and> (\<exists>q\<in>set (set_param2 t). hidUsage q \<noteq> None))
               \<and> \<not> ((\<exists>p\<in>set (set_param2 t). layerId p \<noteq> None) \<and> (\<exists>q\<in>set (set_param1 t). hidUsage q \<noteq> None)))
         \<and> (\<exists>p\<in>set (set_param1 s). layerId p \<noteq> None) \<and> (\<exists>q\<in>set (set_param2 s). hidUsage q \<noteq> None)"
  then have pre: "\<not> list_ex separates pre"
    unfolding list_ex_iff separates_iff by blast
  from a have s: "p1HasLayer s \<and> p2HasUsage s"
    by (simp add: p1HasLayer_def p2HasUsage_def list_ex_iff)
  then have "separates s" by (simp add: separates_def)
  from layerTapOrderOfSets_first[OF pre this, of post] a s
  show "inferLayerTapParamOrder b = Some \<lparr>layerParam = Param1, usageParam = Param2\<rparr>"
    by (simp add: inferLayerTapParamOrder_def)
next
  fix pre s post
  assume a: "metadata b = pre @ s # post
         \<and> (\<forall>t\<in>set pre.
               \<not> ((\<exists>p\<in>set (set_param1 t). layerId p \<noteq> None) \<and> (\<exists>q\<in>set (set_param2 t). hidUsage q \<noteq> None))
               \<and> \<not> ((\<exists>p\<in>set (set_param2 t). layerId p \<noteq> None) \<and> (\<exists>q\<in>set (set_param1 t). hidUsage q \<noteq> None)))
         \<and> \<not> ((\<exists>p\<in>set (set_param1 s). layerId p \<noteq> None) \<and> (\<exists>q\<in>set (set_param2 s). hidUsage q \<noteq> None))
         \<and> (\<exists>p\<in>set (set_param2 s). layerId p \<noteq> None) \<and> (\<exists>q\<in>set (set_param1 s). hidUsage q \<noteq> None)"
  then have pre: "\<not> list_ex separates pre"
    unfolding list_ex_iff separates_iff by blast
  from a have s: "\<not> (p1HasLayer s \<and> p2HasUsage s)" "p2HasLayer s \<and> p1HasUsage s"
    by (simp_all add: p1HasLayer_def p2HasUsage_def p2HasLayer_def p1HasUsage_def list_ex_iff)
  then have "separates s" by (simp add: separates_def)
  from layerTapOrderOfSets_first[OF pre this, of post] a s
  show "inferLayerTapParamOrder b = Some \<lparr>layerParam = Param2, usageParam = Param1\<rparr>"
    by (simp add: inferLayerTapParamOrder_def)
next
  assume "list_ex spec_cleanlySeparates (metadata b)"
  then have "list_ex separates (metadata b)"
    by (auto simp: list_ex_iff intro: clean_separates)
  then show "inferLayerTapParamOrder b \<noteq> None"
    by (simp add: inferLayerTapParamOrder_def layerTapOrderOfSets_None_iff)
next
  assume "inferLayerTapParamOrder b = None \<and> behaviorGroup st = GroupLayerTap \<and> layerTapBehavior st = Some b"
  then show "onUsageClicked cmp st usage = None"
    using onUsageClicked_unmapped[of b st cmp usage] by blast
qed

theorem layerTap_classification_witness:
  "layerTapExample \<in> set (getQuickLayerTapBehaviors [layerTapExample])
   \<and> inferLayerTapParamOrder layerTapExample = Some \<lparr>layerParam = Param1, usageParam = Param2\<rparr>
   \<and> list_ex spec_cleanlySeparates (metadata layerTapExample)
   \<and> splitExample \<in> set (getQuickLayerTapBehaviors [splitExample])
   \<and> inferLayerTapParamOrder splitExample = None
   \<and> onUsageClicked (\<lambda>a b. 0) (panelExample\<lparr>layerTapBehavior := Some splitExample\<rparr>) 458756 = None"
proof -
  define s where "s = hd (metadata layerTapExample)"
  have m: "metadata layerTapExample = [] @ s # []"
    by (simp add: layerTapExample_def s_def)
  have p: "(\<exists>p\<in>set (set_param1 s). layerId p \<noteq> None) \<and> (\<exists>q\<in>set (set_param2 s). hidUsage q \<noteq> None)"
    by (simp add: layerTapExample_def s_def)
  have c: "list_ex spec_cleanlySeparates (metadata layerTapExample)"
    by (simp add: layerTapExample_def spec_cleanlySeparates_def spec_layerIdOnly_def spec_usageOnly_def)
  have h: "(\<exists>s\<in>set (metadata layerTapExample). \<exists>p\<in>set (set_param1 s) \<union> set (set_param2 s). layerId p \<noteq> None)
      \<and> (\<exists>s\<in>set (metadata layerTapExample). \<exists>p\<in>set (set_param1 s) \<union> set (set_param2 s). hidUsage p \<noteq> None)"
    by (simp add: layerTapExample_def)
  note cls = layerTap_classification[of layerTapExample "[layerTapExample]"]
  from cls h have 1: "layerTapExample \<in> set (getQuickLayerTapBehaviors [layerTapExample])"
    by simp
  from cls[THEN conjunct2, THEN conjunct2, THEN conjunct1, rule_format, of "[]" s "[]"] m p
  have 2: "inferLayerTapParamOrder layerTapExample = Some \<lparr>layerParam = Param1, usageParam = Param2\<rparr>"
    by simp
  have h': "(\<exists>s\<in>set (metadata splitExample). \<exists>p\<in>set (set_param1 s) \<union> set (set_param2 s). layerId p \<noteq> None)
      \<and> (\<exists>s\<in>set (metadata splitExample). \<exists>p\<in>set (set_param1 s) \<union> set (set_param2 s). hidUsage p \<noteq> None)"
    by (simp add: splitExample_def layerDescription_def usageDescription_def)
  have n': "\<forall>s\<in>set (metadata splitExample).
           \<not> ((\<exists>p\<in>set (set_param1 s). layerId p \<noteq> None) \<and> (\<exists>q\<in>set (set_param2 s). hidUsage q \<noteq> None))
           \<and> \<not> ((\<exists>p\<in>set (set_param2 s). layerId p \<noteq> None) \<and> (\<exists>q\<in>set (set_param1 s). hidUsage q \<noteq> None))"
    by (simp add: splitExample_def)
  have g: "behaviorGroup (panelExample\<lparr>layerTapBehavior := Some splitExample\<rparr>) = GroupLayerTap"
    "layerTapBehavior (panelExample\<lparr>layerTapBehavior := Some splitExample\<rparr>) = Some splitExample"
    by (simp_all add: panelExample_def)
  note cls' = layerTap_classification[of splitExample "[splitExample]"
      "panelExample\<lparr>layerTapBehavior := Some splitExample\<rparr>" "\<lambda>a b. 0" 458756]
  from cls' h' have 3: "splitExample \<in> set (getQuickLayerTapBehaviors [splitExample])"
    by simp
  from cls' n' have 4: "inferLayerTapParamOrder splitExample = None"
    by blast
  from cls' 4 g have 5: "onUsageClicked (\<lambda>a b. 0) (panelExample\<lparr>layerTapBehavior := Some splitExample\<rparr>) 458756 = None"
    by blast
  from 1 2 c 3 4 5 show ?thesis by simp
qed

lemma inferLayerTap_cases:
  "inferLayerTapParamOrder b = Some order \<Longrightarrow>
   order = \<lparr>layerParam = Param1, usageParam = Param2\<rparr> \<or> order = \<lparr>layerParam = Param2, usageParam = Param1\<rparr>"
  unfolding inferLayerTapParamOrder_def by (rule layerTapOrder_cases)

lemma layerTapExample_order:
  "inferLayerTapParamOrder layerTapExample = Some \<lparr>layerParam = Param1, usageParam = Param2\<rparr>"
  by (simp add: inferLayerTapParamOrder_def layerTapExample_def p1HasLayer_def p2HasUsage_def)


text \<open>
  Claim C7. Whenever editing is possible, a click on a usage in the key group emits
  \<open>{behaviorId, param1: usage, param2: 0}\<close> for the chosen behaviour, and a click in the
  layer-tap group emits the binding that carries the target layer in the layer
  parameter and the usage in the usage parameter of the behaviour's role mapping, which
  is one of the two orientations.
\<close>

theorem encode_key_and_layerTap:
  assumes "canEdit st"
  shows "(behaviorGroup st = GroupKey \<and> quickBehavior st = Some q \<longrightarrow>
            onUsageClicked cmp st usage = Some \<lparr>behaviorId = behavior_id q, param1 = usage, param2 = 0\<rparr>)
       \<and> (behaviorGroup st = GroupLayerTap \<and> layerTapBehavior st = Some lt
            \<and> layerTapTargetLayerId st = Some target \<and> inferLayerTapParamOrder lt = Some order \<longrightarrow>
            (\<exists>b. onUsageClicked cmp st usage = Some b \<and> behaviorId b = behavior_id lt
                \<and> paramOfBinding (layerParam order) b = target
                \<and> paramOfBinding (usageParam order) b = usage
                \<and> (b = \<lparr>behaviorId = behavior_id lt, param1 = target, param2 = usage\<rparr>
                      \<and> order = \<lparr>layerParam = Param1, usageParam = Param2\<rparr>
                    \<or> b = \<lparr>behaviorId = behavior_id lt, param1 = usage, param2 = target\<rparr>
                      \<and> order = \<lparr>layerParam = Param2, usageParam = Param1\<rparr>)))"
proof (intro conjI impI)
  assume "behaviorGroup st = GroupKey \<and> quickBehavior st = Some q"
  with assms show "onUsageClicked cmp st usage = Some \<lparr>behaviorId = behavior_id q, param1 = usage, param2 = 0\<rparr>"
    by (simp add: onUsageClicked_def)
next
  assume a: "behaviorGroup st = GroupLayerTap \<and> layerTapBehavior st = Some lt
            \<and> layerTapTargetLayerId st = Some target \<and> inferLayerTapParamOrder lt = Some order"
  then have "order = \<lparr>layerParam = Param1, usageParam = Param2\<rparr> \<or> order = \<lparr>layerParam = Param2, usageParam = Param1\<rparr>"
    using inferLayerTap_cases by blast
  then show "\<exists>b. onUsageClicked cmp st usage = Some b \<and> behaviorId b = behavior_id lt
                \<and> paramOfBinding (layerParam order) b = target
                \<and> paramOfBinding (usageParam order) b = usage
                \<and> (b = \<lparr>behaviorId = behavior_id lt, param1 = target, param2 = usage\<rparr>
                      \<and> order = \<lparr>layerParam = Param1, usageParam = Param2\<rparr>
                    \<or> b = \<lparr>behaviorId = behavior_id lt, param1 = usage, param2 = target\<rparr>
                      \<and> order = \<lparr>layerParam = Param2, usageParam = Param1\<rparr>)"
  proof
    assume o: "order = \<lparr>layerParam = Param1, usageParam = Param2\<rparr>"
    with a assms show ?thesis
      by (simp add: onUsageClicked_def paramOfBinding_def)
  next
    assume o: "order = \<lparr>layerParam = Param2, usageParam = Param1\<rparr>"
    with a assms show ?thesis
      by (simp add: onUsageClicked_def paramOfBinding_def)
  qed
qed

theorem encode_key_and_layerTap_witness:
  "onUsageClicked (\<lambda>a b. 0) (panelExample\<lparr>behaviorGroup := GroupKey\<rparr>) 458756
     = Some \<lparr>behaviorId = 3, param1 = 458756, param2 = 0\<rparr>
   \<and> onUsageClicked (\<lambda>a b. 0) panelExample 458756 = Some \<lparr>behaviorId = 5, param1 = 2, param2 = 458756\<rparr>"
proof -
  have c1: "canEdit (panelExample\<lparr>behaviorGroup := GroupKey\<rparr>)" and c2: "canEdit panelExample"
    by (simp_all add: canEdit_def panelExample_def)
  have k: "behaviorGroup (panelExample\<lparr>behaviorGroup := GroupKey\<rparr>) = GroupKey
           \<and> quickBehavior (panelExample\<lparr>behaviorGroup := GroupKey\<rparr>) = Some keyPressExample"
    by (simp add: panelExample_def)
  have l: "behaviorGroup panelExample = GroupLayerTap \<and> layerTapBehavior panelExample = Some layerTapExample
            \<and> layerTapTargetLayerId panelExample = Some 2
            \<and> inferLayerTapParamOrder layerTapExample = Some \<lparr>layerParam = Param1, usageParam = Param2\<rparr>"
    by (simp add: panelExample_def layerTapExample_order)
  have i: "behavior_id keyPressExample = 3" "behavior_id layerTapExample = 5"
    by (simp_all add: keyPressExample_def layerTapExample_def)
  from encode_key_and_layerTap[OF c1, of keyPressExample "\<lambda>a b. 0" 458756] k i
  have 1: "onUsageClicked (\<lambda>a b. 0) (panelExample\<lparr>behaviorGroup := GroupKey\<rparr>) 458756
     = Some \<lparr>behaviorId = 3, param1 = 458756, param2 = 0\<rparr>"
    by simp
  from encode_key_and_layerTap[OF c2, of _ _ _ layerTapExample 2 "\<lparr>layerParam = Param1, usageParam = Param2\<rparr>", THEN conjunct2] l i
  have 2: "onUsageClicked (\<lambda>a b. 0) panelExample 458756 = Some \<lparr>behaviorId = 5, param1 = 2, param2 = 458756\<rparr>"
    by auto
  from 1 2 show ?thesis by simp
qed


text \<open>
  Claim C2. For a behaviour with a layer-tap role mapping, the id \<open>L\<close> of an existing
  layer and a usage \<open>U\<close>: the binding the layer-tap click emits for \<open>L\<close> and \<open>U\<close>, once
  it is the selected binding, is read back by the panel as layer \<open>L\<close> and usage \<open>U\<close>.
\<close>

theorem layerTap_roundtrip:
  assumes "inferLayerTapParamOrder lt = Some order"
    and "canEdit st" and "behaviorGroup st = GroupLayerTap"
    and "layerTapBehavior st = Some lt" and "layerTapTargetLayerId st = Some L"
    and "list_ex (\<lambda>l. panelLayer_id l = L) panelLayers"
    and "find (\<lambda>x. behavior_id x = behavior_id lt) layerTapBehaviors = Some lt"
  shows "\<exists>b. onUsageClicked cmp st U = Some b
           \<and> layerTapLayerOfBinding (Some b) (Some (behavior_id lt)) layerTapBehaviors panelLayers = Some L
           \<and> activeLayerTapUsage (Some lt) (Some b) = Some U"
proof -
  from assms(1) have "order = \<lparr>layerParam = Param1, usageParam = Param2\<rparr> \<or> order = \<lparr>layerParam = Param2, usageParam = Param1\<rparr>"
    by (rule inferLayerTap_cases)
  then show ?thesis
  proof
    assume "order = \<lparr>layerParam = Param1, usageParam = Param2\<rparr>"
    with assms show ?thesis
      by (simp add: onUsageClicked_def layerTapLayerOfBinding_def activeLayerTapUsage_def)
  next
    assume "order = \<lparr>layerParam = Param2, usageParam = Param1\<rparr>"
    with assms show ?thesis
      by (simp add: onUsageClicked_def layerTapLayerOfBinding_def activeLayerTapUsage_def)
  qed
qed

theorem layerTap_roundtrip_witness:
  "onUsageClicked (\<lambda>a b. 0) panelExample 458756 = Some \<lparr>behaviorId = 5, param1 = 2, param2 = 458756\<rparr>
   \<and> layerTapLayerOfBinding (Some \<lparr>behaviorId = 5, param1 = 2, param2 = 458756\<rparr>) (Some 5)
        [layerTapExample] panelLayersExample = Some 2
   \<and> activeLayerTapUsage (Some layerTapExample) (Some \<lparr>behaviorId = 5, param1 = 2, param2 = 458756\<rparr>)
        = Some 458756"
proof -
  have c: "canEdit panelExample" "behaviorGroup panelExample = GroupLayerTap"
    "layerTapBehavior panelExample = Some layerTapExample" "layerTapTargetLayerId panelExample = Some 2"
    by (simp_all add: canEdit_def panelExample_def)
  have l: "list_ex (\<lambda>l. panelLayer_id l = 2) panelLayersExample"
    by (simp add: panelLayersExample_def)
  have f: "find (\<lambda>x. behavior_id x = behavior_id layerTapExample) [layerTapExample] = Some layerTapExample"
    by simp
  have i: "behavior_id layerTapExample = 5" by (simp add: layerTapExample_def)
  have e: "onUsageClicked (\<lambda>a b. 0) panelExample 458756 = Some \<lparr>behaviorId = 5, param1 = 2, param2 = 458756\<rparr>"
    using c i by (simp add: onUsageClicked_def layerTapExample_order)
  from layerTap_roundtrip[OF layerTapExample_order c l f, of "\<lambda>a b. 0" 458756] e i
  show ?thesis by auto
qed

section \<open>The letters of the palette\<close>

text \<open>
  Claim C10, as stated, fails: \<open>letterUsageId\<close> upper-cases its argument first, so a
  lower-case letter is no other input that throws. It maps to the id of its capital.
\<close>

theorem letterUsageId_counterexample:
  "letterUsageId ''a'' = Inr (Num 4)"
  by (simp add: letterUsageId_def toUpperCase_def toUpperChar_def)

lemma letterUsageId_upper:
  assumes "65 \<le> (of_char c :: nat)" "(of_char c :: nat) \<le> 90"
  shows "letterUsageId (c # rest) = Inr (Num (4 + (int (of_char c) - 65)))"
  using assms by (simp add: letterUsageId_def toUpperCase_def toUpperChar_def Let_def)

lemma letterUsageId_lower:
  assumes "97 \<le> (of_char c :: nat)" "(of_char c :: nat) \<le> 122"
  shows "letterUsageId (c # rest) = Inr (Num (4 + (int (of_char c) - 97)))"
proof -
  have "(of_char c :: nat) - 32 < 256" using assms by simp
  then have "(of_char (char_of ((of_char c :: nat) - 32)) :: nat) = of_char c - 32"
    by simp
  with assms show ?thesis
    by (auto simp: letterUsageId_def toUpperCase_def toUpperChar_def Let_def)
qed

lemma letterUsageId_other:
  assumes "\<not> (65 \<le> (of_char c :: nat) \<and> (of_char c :: nat) \<le> 90)"
    "\<not> (97 \<le> (of_char c :: nat) \<and> (of_char c :: nat) \<le> 122)"
  shows "letterUsageId (c # rest) = Inl (''Invalid letter: '' @ c # rest)"
  using assms by (auto simp: letterUsageId_def toUpperCase_def toUpperChar_def Let_def)

lemma letterSpecs_rows:
  "\<exists>ks. letterSpecs ''QWERTYUIOP'' = Inr ks"
  "\<exists>ks. letterSpecs ''ASDFGHJKL'' = Inr ks"
  "\<exists>ks. letterSpecs ''ZXCVBNM'' = Inr ks"
  by (simp_all add: letterUsageId_def toUpperCase_def toUpperChar_def)

lemma paletteRowsMain_total: "\<exists>rows. paletteRowsMain = Inr rows \<and> length rows = 5"
  by (simp add: paletteRowsMain_def letterRow_def letterUsageId_def toUpperCase_def toUpperChar_def)

lemma call_sites:
  "list_all (\<lambda>l. \<exists>n. letterUsageId [l] = Inr (Num n) \<and> 4 \<le> n \<and> n \<le> 29)
     (''QWERTYUIOP'' @ ''ASDFGHJKL'' @ ''ZXCVBNM'')"
  by (simp add: letterUsageId_def toUpperCase_def toUpperChar_def)



text \<open>
  Claim C10, amended. \<open>letterUsageId\<close> looks at the first character of its argument:
  a capital letter \<open>A\<close>..\<open>Z\<close> gives 4 plus its distance from \<open>A\<close>, a small letter
  gives the id of its capital, and any other ASCII character makes it throw. Every
  letter of the three literal strings the palette is built from gives an id from 4 to
  29, so building the rows of the main category throws nothing and yields five rows.
\<close>

theorem letterUsageId_letters_and_palette:
  "(65 \<le> (of_char c :: nat) \<and> (of_char c :: nat) \<le> 90 \<longrightarrow>
      letterUsageId (c # rest) = Inr (Num (4 + (int (of_char c) - 65))))
   \<and> (97 \<le> (of_char c :: nat) \<and> (of_char c :: nat) \<le> 122 \<longrightarrow>
      letterUsageId (c # rest) = Inr (Num (4 + (int (of_char c) - 97))))
   \<and> ((of_char c :: nat) < 128 \<and> \<not> (65 \<le> (of_char c :: nat) \<and> (of_char c :: nat) \<le> 90)
        \<and> \<not> (97 \<le> (of_char c :: nat) \<and> (of_char c :: nat) \<le> 122) \<longrightarrow>
      letterUsageId (c # rest) = Inl (''Invalid letter: '' @ c # rest))
   \<and> list_all (\<lambda>l. \<exists>n. letterUsageId [l] = Inr (Num n) \<and> 4 \<le> n \<and> n \<le> 29)
        (''QWERTYUIOP'' @ ''ASDFGHJKL'' @ ''ZXCVBNM'')
   \<and> (\<exists>rows. paletteRowsMain = Inr rows \<and> length rows = 5)"
  using letterUsageId_upper[of c rest] letterUsageId_lower[of c rest] letterUsageId_other[of c rest]
    call_sites paletteRowsMain_total
  by blast

theorem letterUsageId_letters_and_palette_witness:
  "letterUsageId ''Q'' = Inr (Num 20) \<and> letterUsageId ''q'' = Inr (Num 20)
   \<and> letterUsageId ''1'' = Inl ''Invalid letter: 1''"
proof -
  have q: "(of_char CHR ''Q'' :: nat) = 81" "(of_char CHR ''q'' :: nat) = 113"
    "(of_char CHR ''1'' :: nat) = 49"
    by simp_all
  from letterUsageId_letters_and_palette[of "CHR ''Q''" "[]"] q
  have 1: "letterUsageId ''Q'' = Inr (Num 20)" by simp
  from letterUsageId_letters_and_palette[of "CHR ''q''" "[]"] q
  have 2: "letterUsageId ''q'' = Inr (Num 20)" by simp
  from letterUsageId_letters_and_palette[of "CHR ''1''" "[]"] q
  have 3: "letterUsageId ''1'' = Inl ''Invalid letter: 1''" by simp
  from 1 2 3 show ?thesis by simp
qed

section \<open>Edits of the keymap replica\<close>

lemma setBindingRecipe_valid:
  "0 \<le> l \<Longrightarrow> l < int (length (layers km)) \<Longrightarrow>
   setBindingRecipe l k v km = Inr (withBinding km (nat l) k v)"
  by (simp add: setBindingRecipe_def arrayGet_def withBinding_def)

lemma bindingAt_arraySet: "bindingAt (arraySet xs k v) k = v"
  by (simp add: bindingAt_def arraySet_def nth_append)

lemma bindingAt_arraySet_other: "j \<noteq> k \<Longrightarrow> j < length xs \<Longrightarrow> bindingAt (arraySet xs k v) j = bindingAt xs j"
  by (simp add: bindingAt_def arraySet_def nth_append)

lemma withBinding_bindings:
  "l < length (layers km) \<Longrightarrow>
   bindings (layers (withBinding km l k v) ! l) = arraySet (bindings (layers km ! l)) k v"
  by (simp add: withBinding_def)

lemma doUpdateBinding_Some:
  assumes "doUpdateBinding (Some km) (Some k) sel binding = Inr (Some e)"
  shows "0 \<le> sel \<and> sel < int (length (layers km))
         \<and> e = \<lparr>edit_layer = sel, edit_layerId = layer_id (layers km ! nat sel),
                 edit_keyPosition = k, edit_binding = binding,
                 edit_oldBinding = bindingAt (bindings (layers km ! nat sel)) k\<rparr>"
  using assms by (auto simp: doUpdateBinding_def arrayGet_def split: option.splits if_splits)


text \<open>
  Claim C1. For an edit that \<open>doUpdateBinding\<close> starts on the loaded keymap: when the
  device answers \<open>SET_LAYER_BINDING_RESP_OK\<close> the replica becomes the keymap with the
  binding at the selected layer and key position replaced by the new one; on every
  other answer the replica stays the keymap it was; and the inverse, when run, sends
  for the same layer id and key position the binding that stood there before the edit.
\<close>

theorem doUpdateBinding_confirmed_only:
  assumes "doUpdateBinding (Some km) (Some k) sel binding = Inr (Some e)"
  shows "(resp = Some SET_LAYER_BINDING_RESP_OK \<longrightarrow>
            performSetBinding True e resp \<lparr>replica = km, sent = ss\<rparr>
              = Inr \<lparr>replica = withBinding km (nat sel) k (Some binding),
                     sent = ss @ [\<lparr>req_layerId = layer_id (layers km ! nat sel), req_keyPosition = k,
                                   req_binding = Some binding\<rparr>]\<rparr>
            \<and> bindingAt (bindings (layers (withBinding km (nat sel) k (Some binding)) ! nat sel)) k
                = Some binding)
       \<and> (resp \<noteq> Some SET_LAYER_BINDING_RESP_OK \<longrightarrow>
            performSetBinding True e resp \<lparr>replica = km, sent = ss\<rparr>
              = Inr \<lparr>replica = km,
                     sent = ss @ [\<lparr>req_layerId = layer_id (layers km ! nat sel), req_keyPosition = k,
                                   req_binding = Some binding\<rparr>]\<rparr>)
       \<and> (0 \<le> sel \<and> sel < int (length (layers (replica s))) \<longrightarrow>
            (\<exists>t. undoSetBinding True e resp' s = Inr t
                \<and> sent t = sent s @ [\<lparr>req_layerId = layer_id (layers km ! nat sel), req_keyPosition = k,
                                        req_binding = bindingAt (bindings (layers km ! nat sel)) k\<rparr>]))"
proof -
  note e = doUpdateBinding_Some[OF assms]
  have 1: "resp = Some SET_LAYER_BINDING_RESP_OK \<longrightarrow>
            performSetBinding True e resp \<lparr>replica = km, sent = ss\<rparr>
              = Inr \<lparr>replica = withBinding km (nat sel) k (Some binding),
                     sent = ss @ [\<lparr>req_layerId = layer_id (layers km ! nat sel), req_keyPosition = k,
                                   req_binding = Some binding\<rparr>]\<rparr>"
    using e by (simp add: performSetBinding_def setBindingRecipe_valid)
  have 2: "bindingAt (bindings (layers (withBinding km (nat sel) k (Some binding)) ! nat sel)) k
                = Some binding"
  proof -
    from e have "0 \<le> sel" "sel < int (length (layers km))" by blast+
    then have "nat sel < length (layers km)" by linarith
    then show ?thesis by (simp add: withBinding_bindings bindingAt_arraySet)
  qed
  have 3: "resp \<noteq> Some SET_LAYER_BINDING_RESP_OK \<longrightarrow>
            performSetBinding True e resp \<lparr>replica = km, sent = ss\<rparr>
              = Inr \<lparr>replica = km,
                     sent = ss @ [\<lparr>req_layerId = layer_id (layers km ! nat sel), req_keyPosition = k,
                                   req_binding = Some binding\<rparr>]\<rparr>"
    using e by (simp add: performSetBinding_def)
  have 4: "0 \<le> sel \<and> sel < int (length (layers (replica s))) \<longrightarrow>
            (\<exists>t. undoSetBinding True e resp' s = Inr t
                \<and> sent t = sent s @ [\<lparr>req_layerId = layer_id (layers km ! nat sel), req_keyPosition = k,
                                        req_binding = bindingAt (bindings (layers km ! nat sel)) k\<rparr>])"
  proof
    assume v: "0 \<le> sel \<and> sel < int (length (layers (replica s)))"
    from e have f: "edit_layer e = sel" "edit_layerId e = layer_id (layers km ! nat sel)"
      "edit_keyPosition e = k" "edit_oldBinding e = bindingAt (bindings (layers km ! nat sel)) k"
      by simp_all
    from v show "\<exists>t. undoSetBinding True e resp' s = Inr t
                \<and> sent t = sent s @ [\<lparr>req_layerId = layer_id (layers km ! nat sel), req_keyPosition = k,
                                        req_binding = bindingAt (bindings (layers km ! nat sel)) k\<rparr>]"
      by (simp add: undoSetBinding_def f setBindingRecipe_valid Let_def)
  qed
  from 1 2 3 4 show ?thesis by blast
qed


lemma editExample_captured:
  "doUpdateBinding (Some keymapExample) (Some 2) 1 \<lparr>behaviorId = 3, param1 = 40, param2 = 0\<rparr>
     = Inr (Some editExample)"
  by (simp add: doUpdateBinding_def keymapExample_def editExample_def arrayGet_def bindingAt_def)

theorem doUpdateBinding_confirmed_only_witness:
  "performSetBinding True editExample (Some SET_LAYER_BINDING_RESP_OK) \<lparr>replica = keymapExample, sent = []\<rparr>
     = Inr \<lparr>replica = withBinding keymapExample 1 2 (Some \<lparr>behaviorId = 3, param1 = 40, param2 = 0\<rparr>),
            sent = [\<lparr>req_layerId = 11, req_keyPosition = 2,
                     req_binding = Some \<lparr>behaviorId = 3, param1 = 40, param2 = 0\<rparr>\<rparr>]\<rparr>
   \<and> performSetBinding True editExample (Some (SET_LAYER_BINDING_RESP_OTHER 1))
        \<lparr>replica = keymapExample, sent = []\<rparr>
     = Inr \<lparr>replica = keymapExample,
            sent = [\<lparr>req_layerId = 11, req_keyPosition = 2,
                     req_binding = Some \<lparr>behaviorId = 3, param1 = 40, param2 = 0\<rparr>\<rparr>]\<rparr>
   \<and> (\<exists>t. undoSetBinding True editExample (Some SET_LAYER_BINDING_RESP_OK)
              \<lparr>replica = withBinding keymapExample 1 2 (Some \<lparr>behaviorId = 3, param1 = 40, param2 = 0\<rparr>),
               sent = []\<rparr> = Inr t
          \<and> sent t = [\<lparr>req_layerId = 11, req_keyPosition = 2,
                        req_binding = Some \<lparr>behaviorId = 3, param1 = 9, param2 = 0\<rparr>\<rparr>])"
proof -
  have l: "layer_id (layers keymapExample ! nat 1) = 11"
    "bindingAt (bindings (layers keymapExample ! nat 1)) 2 = Some \<lparr>behaviorId = 3, param1 = 9, param2 = 0\<rparr>"
    "length (layers keymapExample) = 3"
    by (simp_all add: keymapExample_def bindingAt_def)
  have w: "length (layers (withBinding keymapExample 1 2 (Some \<lparr>behaviorId = 3, param1 = 40, param2 = 0\<rparr>))) = 3"
    by (simp add: withBinding_def l)
  from doUpdateBinding_confirmed_only[OF editExample_captured,
      of "Some SET_LAYER_BINDING_RESP_OK" "[]" _ "Some SET_LAYER_BINDING_RESP_OK"] l
  have 1: "performSetBinding True editExample (Some SET_LAYER_BINDING_RESP_OK) \<lparr>replica = keymapExample, sent = []\<rparr>
     = Inr \<lparr>replica = withBinding keymapExample 1 2 (Some \<lparr>behaviorId = 3, param1 = 40, param2 = 0\<rparr>),
            sent = [\<lparr>req_layerId = 11, req_keyPosition = 2,
                     req_binding = Some \<lparr>behaviorId = 3, param1 = 40, param2 = 0\<rparr>\<rparr>]\<rparr>"
    by simp
  from doUpdateBinding_confirmed_only[OF editExample_captured,
      of "Some (SET_LAYER_BINDING_RESP_OTHER 1)" "[]" _ "Some SET_LAYER_BINDING_RESP_OK"] l
  have 2: "performSetBinding True editExample (Some (SET_LAYER_BINDING_RESP_OTHER 1))
        \<lparr>replica = keymapExample, sent = []\<rparr>
     = Inr \<lparr>replica = keymapExample,
            sent = [\<lparr>req_layerId = 11, req_keyPosition = 2,
                     req_binding = Some \<lparr>behaviorId = 3, param1 = 40, param2 = 0\<rparr>\<rparr>]\<rparr>"
    by simp
  from doUpdateBinding_confirmed_only[OF editExample_captured,
      of _ _ "\<lparr>replica = withBinding keymapExample 1 2 (Some \<lparr>behaviorId = 3, param1 = 40, param2 = 0\<rparr>),
               sent = []\<rparr>" "Some SET_LAYER_BINDING_RESP_OK"] l w
  have 3: "\<exists>t. undoSetBinding True editExample (Some SET_LAYER_BINDING_RESP_OK)
              \<lparr>replica = withBinding keymapExample 1 2 (Some \<lparr>behaviorId = 3, param1 = 40, param2 = 0\<rparr>),
               sent = []\<rparr> = Inr t
          \<and> sent t = [\<lparr>req_layerId = 11, req_keyPosition = 2,
                        req_binding = Some \<lparr>behaviorId = 3, param1 = 9, param2 = 0\<rparr>\<rparr>]"
    by simp
  from 1 2 3 show ?thesis by blast
qed


lemma length_spliceOne:
  "0 \<le> i \<Longrightarrow> i < int (length xs) \<Longrightarrow> length (spliceOne xs i) = length xs - 1"
  by (auto simp: spliceOne_def Let_def min_def)

lemma length_spliceOne_ge: "length (spliceOne xs i) \<ge> length xs - 1"
  by (auto simp: spliceOne_def Let_def min_def max_def)

lemma length_spliceOne_le: "length (spliceOne xs i) \<le> length xs"
  by (auto simp: spliceOne_def Let_def min_def max_def)

text \<open>
  Claim C9. Let the selected index be valid and let the keymap have more than one
  layer, which is when the picker offers removal. After a removal the device confirmed,
  by \<open>removeLayer\<close> at the selected index or by the undo of \<open>addLayer\<close> at any index, the
  selected index, once the clamping effect has run, lies between 0 and the last index
  of the remaining layers; and removing the selected last layer selects the new last
  layer.
\<close>

theorem selection_clamped_after_shrink:
  assumes "es_keymap st = Some km" and "canRemove km"
    and "0 \<le> es_selectedLayerIndex st" and "es_selectedLayerIndex st < int (length (layers km))"
  shows "(\<exists>st' km'. removeLayer_doRemove True (Some km) (es_selectedLayerIndex st) True st = Inr st'
            \<and> es_keymap st' = Some km' \<and> length (layers km') = length (layers km) - 1
            \<and> 0 \<le> es_selectedLayerIndex (clampSelectedLayer st')
            \<and> es_selectedLayerIndex (clampSelectedLayer st') \<le> int (length (layers km')) - 1
            \<and> (es_selectedLayerIndex st = int (length (layers km)) - 1 \<longrightarrow>
                 es_selectedLayerIndex (clampSelectedLayer st') = int (length (layers km')) - 1))
       \<and> (\<exists>st' km'. addLayer_doRemove True i True st = Inr st'
            \<and> es_keymap st' = Some km' \<and> length (layers km') \<le> length (layers km)
            \<and> 0 \<le> es_selectedLayerIndex (clampSelectedLayer st')
            \<and> es_selectedLayerIndex (clampSelectedLayer st') \<le> int (length (layers km')) - 1)"
proof (intro conjI)
  let ?sel = "es_selectedLayerIndex st"
  from assms(2) have len: "length (layers km) > 1" by (simp add: canRemove_def)
  have sl: "length (spliceOne (layers km) ?sel) = length (layers km) - 1"
    using assms(3,4) by (rule length_spliceOne)
  show "\<exists>st' km'. removeLayer_doRemove True (Some km) ?sel True st = Inr st'
            \<and> es_keymap st' = Some km' \<and> length (layers km') = length (layers km) - 1
            \<and> 0 \<le> es_selectedLayerIndex (clampSelectedLayer st')
            \<and> es_selectedLayerIndex (clampSelectedLayer st') \<le> int (length (layers km')) - 1
            \<and> (?sel = int (length (layers km)) - 1 \<longrightarrow>
                 es_selectedLayerIndex (clampSelectedLayer st') = int (length (layers km')) - 1)"
    using assms(1,3,4) len sl
    by (auto simp: removeLayer_doRemove_def removeLayerRecipe_def clampSelectedLayer_def Let_def)
  have ge: "length (spliceOne (layers km) i) \<ge> length (layers km) - 1"
    by (rule length_spliceOne_ge)
  have le: "length (spliceOne (layers km) i) \<le> length (layers km)"
    by (rule length_spliceOne_le)
  show "\<exists>st' km'. addLayer_doRemove True i True st = Inr st'
            \<and> es_keymap st' = Some km' \<and> length (layers km') \<le> length (layers km)
            \<and> 0 \<le> es_selectedLayerIndex (clampSelectedLayer st')
            \<and> es_selectedLayerIndex (clampSelectedLayer st') \<le> int (length (layers km')) - 1"
    using assms(1,3,4) len ge le
    by (auto simp: addLayer_doRemove_def removeLayerRecipe_def clampSelectedLayer_def Let_def)
qed


theorem selection_clamped_after_shrink_witness:
  "(\<exists>st'. removeLayer_doRemove True (Some keymapExample) 2 True editorExample = Inr st'
          \<and> es_selectedLayerIndex (clampSelectedLayer st') = 1)
   \<and> (\<exists>st'. addLayer_doRemove True 0 True editorExample = Inr st'
          \<and> 0 \<le> es_selectedLayerIndex (clampSelectedLayer st')
          \<and> es_selectedLayerIndex (clampSelectedLayer st') \<le> 2)"
proof -
  have k: "es_keymap editorExample = Some keymapExample" "canRemove keymapExample"
    "0 \<le> es_selectedLayerIndex editorExample"
    "es_selectedLayerIndex editorExample < int (length (layers keymapExample))"
    by (simp_all add: editorExample_def keymapExample_def canRemove_def)
  have s: "es_selectedLayerIndex editorExample = 2" "length (layers keymapExample) = 3"
    by (simp_all add: editorExample_def keymapExample_def)
  note c = selection_clamped_after_shrink[OF k, of 0, unfolded s]
  from c[THEN conjunct1] have 1: "\<exists>st'. removeLayer_doRemove True (Some keymapExample) 2 True editorExample = Inr st'
          \<and> es_selectedLayerIndex (clampSelectedLayer st') = 1"
    by auto
  from c[THEN conjunct2] obtain st' and km' :: Keymap where a: "addLayer_doRemove True 0 True editorExample = Inr st'"
    "length (layers km') \<le> 3" "0 \<le> es_selectedLayerIndex (clampSelectedLayer st')"
    "es_selectedLayerIndex (clampSelectedLayer st') \<le> int (length (layers km')) - 1"
    by blast
  then have "es_selectedLayerIndex (clampSelectedLayer st') \<le> 2" by linarith
  with a have 2: "\<exists>st'. addLayer_doRemove True 0 True editorExample = Inr st'
          \<and> 0 \<le> es_selectedLayerIndex (clampSelectedLayer st')
          \<and> es_selectedLayerIndex (clampSelectedLayer st') \<le> 2"
    by blast
  from 1 2 show ?thesis by blast
qed

section \<open>Bluetooth role mapping\<close>

lemma lower_letters:
  "char_of (97::nat) = CHR ''a''"
  "char_of (98::nat) = CHR ''b''"
  "char_of (99::nat) = CHR ''c''"
  "char_of (100::nat) = CHR ''d''"
  "char_of (101::nat) = CHR ''e''"
  "char_of (102::nat) = CHR ''f''"
  "char_of (103::nat) = CHR ''g''"
  "char_of (104::nat) = CHR ''h''"
  "char_of (105::nat) = CHR ''i''"
  "char_of (106::nat) = CHR ''j''"
  "char_of (107::nat) = CHR ''k''"
  "char_of (108::nat) = CHR ''l''"
  "char_of (109::nat) = CHR ''m''"
  "char_of (110::nat) = CHR ''n''"
  "char_of (111::nat) = CHR ''o''"
  "char_of (112::nat) = CHR ''p''"
  "char_of (113::nat) = CHR ''q''"
  "char_of (114::nat) = CHR ''r''"
  "char_of (115::nat) = CHR ''s''"
  "char_of (116::nat) = CHR ''t''"
  "char_of (117::nat) = CHR ''u''"
  "char_of (118::nat) = CHR ''v''"
  "char_of (119::nat) = CHR ''w''"
  "char_of (120::nat) = CHR ''x''"
  "char_of (121::nat) = CHR ''y''"
  "char_of (122::nat) = CHR ''z''"
  by code_simp+

lemmas string_eval = normalizeName_def toLowerCase_def toLowerChar_def isSeparatorChar_def lower_letters

lemma normalizedLabels:
  "map normalizeName BT_ACTION_LABELS =
     [''nextprofile'', ''previousprofile'', ''clearallprofiles'', ''clearselectedprofile'',
      ''selectprofile'', ''disconnectprofile'']"
  by (simp add: BT_ACTION_LABELS_def string_eval)

lemma normalizedNames:
  "normalizeName ''Clear Selected Profile'' = ''clearselectedprofile''"
  "normalizeName ''Next Profile'' = ''nextprofile''"
  "normalizeName ''Previous Profile'' = ''previousprofile''"
  "normalizeName ''Select Profile'' = ''selectprofile''"
  "normalizeName ''Clear All Profiles'' = ''clearallprofiles''"
  "normalizeName ''Disconnect Profile'' = ''disconnectprofile''"
  "normalizeName ''USB'' = ''usb''"
  "normalizeName ''BLE'' = ''ble''"
  "normalizeName ''Toggle'' = ''toggle''"
  "normalizeName ''Level'' = ''level''"
  by (simp_all add: string_eval)

lemmas example_eval = paramScore_def paramOfSet_def scoresNothing_def sixActions_def
  constantDescription_def rangeDescription_def normalizedLabels normalizedNames


lemma capital_letters:
  "map char_of [65..<91::nat] = ''ABCDEFGHIJKLMNOPQRSTUVWXYZ''"
  by code_simp

lemma capital_iff:
  "(65 \<le> (of_char c :: nat) \<and> (of_char c :: nat) \<le> 90) \<longleftrightarrow> c \<in> set ''ABCDEFGHIJKLMNOPQRSTUVWXYZ''"
proof
  assume "65 \<le> (of_char c :: nat) \<and> (of_char c :: nat) \<le> 90"
  then have "(of_char c :: nat) \<in> set [65..<91]" by (simp only: set_upt atLeastLessThan_iff) auto
  then have "char_of (of_char c :: nat) \<in> set (map char_of [65..<91::nat])"
    by (simp only: set_map) (rule imageI)
  then show "c \<in> set ''ABCDEFGHIJKLMNOPQRSTUVWXYZ''"
    by (simp only: capital_letters char_of_char)
next
  assume "c \<in> set ''ABCDEFGHIJKLMNOPQRSTUVWXYZ''"
  then show "65 \<le> (of_char c :: nat) \<and> (of_char c :: nat) \<le> 90"
    by auto
qed

lemma toLowerChar_stated: "toLowerChar c = stated_lowerChar c"
proof (cases "c \<in> set ''ABCDEFGHIJKLMNOPQRSTUVWXYZ''")
  case True
  then show ?thesis
    by (auto simp: toLowerChar_def stated_lowerChar_def lower_letters)
next
  case False
  then have "\<not> (65 \<le> (of_char c :: nat) \<and> (of_char c :: nat) \<le> 90)"
    by (simp only: capital_iff not_False_eq_True)
  moreover from False have "stated_lowerChar c = c"
    by (simp add: stated_lowerChar_def)
  ultimately show ?thesis by (auto simp: toLowerChar_def Let_def)
qed

lemma separator_chars:
  "map char_of [9, 10, 11, 12, 13, 32, 95, 45 :: nat]
     = [CHR 0x09, CHR 0x0A, CHR 0x0B, CHR 0x0C, CHR 0x0D, CHR '' '', CHR ''_'', CHR ''-'']"
  by code_simp

lemma isSeparatorChar_stated: "isSeparatorChar c = stated_ignored c"
proof
  assume "isSeparatorChar c"
  then have "(of_char c :: nat) \<in> set [9, 10, 11, 12, 13, 32, 95, 45]"
    by (auto simp: isSeparatorChar_def Let_def)
  then have "char_of (of_char c :: nat) \<in> set (map char_of [9, 10, 11, 12, 13, 32, 95, 45 :: nat])"
    by (simp only: set_map) (rule imageI)
  then show "stated_ignored c"
    by (simp only: separator_chars char_of_char) (auto simp: stated_ignored_def)
next
  assume "stated_ignored c"
  then show "isSeparatorChar c"
    by (auto simp: stated_ignored_def isSeparatorChar_def)
qed

lemma stated_ignored_lower: "stated_ignored (stated_lowerChar c) = stated_ignored c"
proof (cases "c \<in> set ''ABCDEFGHIJKLMNOPQRSTUVWXYZ''")
  case True
  then show ?thesis by (auto simp: stated_lowerChar_def stated_ignored_def)
next
  case False
  then show ?thesis by (simp add: stated_lowerChar_def)
qed

lemma normalizeName_stated: "normalizeName nm = stated_normalized nm"
  by (induction nm)
     (simp_all add: normalizeName_def stated_normalized_def toLowerCase_def toLowerChar_stated
        isSeparatorChar_stated stated_ignored_lower)

lemma expected_stated:
  "normalizeName nm \<in> set (map normalizeName BT_ACTION_LABELS) \<longleftrightarrow> stated_isActionName nm"
  by (simp add: BT_ACTION_LABELS_def stated_isActionName_def stated_sameName_def normalizeName_stated)

lemma paramScore_stated: "paramScore p s = stated_matchCount (paramOfSet p s)"
  unfolding paramScore_def stated_matchCount_def filter_filter expected_stated ..

lemma scoresNothing_stated:
  "scoresNothing s \<longleftrightarrow> stated_matchCount (set_param1 s) = 0 \<and> stated_matchCount (set_param2 s) = 0"
  by (simp add: scoresNothing_def paramScore_stated paramOfSet_def)

lemma isActionName_eval:
  "stated_isActionName nm \<longleftrightarrow>
     normalizeName nm \<in> set [''nextprofile'', ''previousprofile'', ''clearallprofiles'',
                              ''clearselectedprofile'', ''selectprofile'', ''disconnectprofile'']"
  by (simp only: expected_stated[symmetric] normalizedLabels)

lemma looseNames_normalized:
  "normalizeName ''next_profile'' = ''nextprofile''"
  "normalizeName ''SELECT-PROFILE'' = ''selectprofile''"
  "normalizeName ''Profile'' = ''profile''"
  by (simp_all add: string_eval)

lemmas stated_eval = stated_matchCount_def isActionName_eval normalizedNames looseNames_normalized

lemmas ascii_eval = asciiNames_def asciiText_def

lemma bluetoothOrderOfSets_None_iff:
  "bluetoothOrderOfSets ms = None \<longleftrightarrow> list_all scoresNothing ms"
  by (induction ms) (auto simp: scoresNothing_def Let_def)

lemma bluetoothOrderOfSets_first:
  "list_all scoresNothing pre \<Longrightarrow> \<not> scoresNothing s \<Longrightarrow>
   bluetoothOrderOfSets (pre @ s # post) =
     Some \<lparr>actionParam = (if paramScore Param2 s \<le> paramScore Param1 s then Param1 else Param2),
           profileParam =
             (if paramOfSet (otherParamName (if paramScore Param2 s \<le> paramScore Param1 s then Param1 else Param2)) s = []
              then None
              else Some (otherParamName (if paramScore Param2 s \<le> paramScore Param1 s then Param1 else Param2)))\<rparr>"
  by (induction pre) (auto simp: scoresNothing_def Let_def)

lemma inferSingleConstantParam_iff:
  "inferSingleConstantParam b =
     (if (\<exists>d\<in>set (concat (map set_param1 (metadata b))). constantValue d \<noteq> None)
          \<and> concat (map set_param2 (metadata b)) = []
          \<and> (\<forall>d\<in>set (concat (map set_param1 (metadata b))).
                hidUsage d = None \<and> layerId d = None \<and> valueRange d = None)
      then Some Param1
      else if (\<exists>d\<in>set (concat (map set_param2 (metadata b))). constantValue d \<noteq> None)
          \<and> concat (map set_param1 (metadata b)) = []
          \<and> (\<forall>d\<in>set (concat (map set_param2 (metadata b))).
                hidUsage d = None \<and> layerId d = None \<and> valueRange d = None)
      then Some Param2
      else None)"
  unfolding inferSingleConstantParam_def Let_def list_ex_iff isOtherDescription_def
  by (cases "concat (map set_param1 (metadata b))"; cases "concat (map set_param2 (metadata b))") auto


lemma constantOrRangeExample_facts:
  "bluetoothEligible constantOrRangeExample"
  "list_all scoresNothing (metadata constantOrRangeExample)"
  "spec_onlyParamWithConstants constantOrRangeExample Param1"
  "inferBluetoothParamOrder constantOrRangeExample = None"
  by (simp_all add: constantOrRangeExample_def bluetoothEligible_def hasConstantParam_def
      hasHidUsageParam_def hasLayerIdParam_def setParams_def example_eval
      spec_onlyParamWithConstants_def otherParamName_def inferBluetoothParamOrder_def
      inferSingleConstantParam_def isOtherDescription_def)

lemma laterSetExample_facts:
  "bluetoothEligible laterSetExample"
  "spec_overlap laterSetExample Param1 = 1"
  "spec_overlap laterSetExample Param2 = 2"
  "inferBluetoothParamOrder laterSetExample = Some \<lparr>actionParam = Param1, profileParam = None\<rparr>"
  by (simp_all add: laterSetExample_def bluetoothEligible_def hasConstantParam_def
      hasHidUsageParam_def hasLayerIdParam_def setParams_def example_eval
      spec_overlap_def spec_labelMatches_def spec_isWhitespace_def BT_ACTION_LABELS_def
      toLowerCase_def toLowerChar_def lower_letters
      otherParamName_def inferBluetoothParamOrder_def)

lemma looseNamesExample_facts:
  "bluetoothEligible looseNamesExample"
  "spec_overlap looseNamesExample Param1 = 0"
  "spec_overlap looseNamesExample Param2 = 0"
  "\<not> spec_onlyParamWithConstants looseNamesExample Param1"
  "\<not> spec_onlyParamWithConstants looseNamesExample Param2"
  "inferBluetoothParamOrder looseNamesExample = Some \<lparr>actionParam = Param1, profileParam = Some Param2\<rparr>"
  by (simp_all add: looseNamesExample_def bluetoothEligible_def hasConstantParam_def
      hasHidUsageParam_def hasLayerIdParam_def setParams_def example_eval looseNames_normalized
      spec_overlap_def spec_labelMatches_def spec_isWhitespace_def BT_ACTION_LABELS_def
      spec_onlyParamWithConstants_def
      toLowerCase_def toLowerChar_def lower_letters
      otherParamName_def inferBluetoothParamOrder_def)


text \<open>
  Claim C4, as stated, fails three times. A bluetooth-eligible behaviour whose first
  parameter takes a constant or a range, the second parameter having no descriptions,
  has no label overlap and is the only parameter with constants, yet gets no role
  mapping. Where a later set gives the other parameter more matching labels, the
  action parameter is still the one of the first set with any match. And the constants
  \<open>next_profile\<close> and \<open>SELECT-PROFILE\<close> match no action label when only case and white
  space are ignored, and the other parameter has a description, so the claim gives the
  behaviour no role mapping; the code ignores underscores and hyphens as well and maps
  the action to \<open>param1\<close> and the profile to \<open>param2\<close>.
\<close>

theorem inferBluetoothParamOrder_counterexample:
  "bluetoothEligible constantOrRangeExample
   \<and> list_all scoresNothing (metadata constantOrRangeExample)
   \<and> spec_onlyParamWithConstants constantOrRangeExample Param1
   \<and> inferBluetoothParamOrder constantOrRangeExample = None
   \<and> bluetoothEligible laterSetExample
   \<and> spec_overlap laterSetExample Param1 < spec_overlap laterSetExample Param2
   \<and> inferBluetoothParamOrder laterSetExample = Some \<lparr>actionParam = Param1, profileParam = None\<rparr>
   \<and> bluetoothEligible looseNamesExample
   \<and> spec_overlap looseNamesExample Param1 = 0
   \<and> spec_overlap looseNamesExample Param2 = 0
   \<and> \<not> spec_onlyParamWithConstants looseNamesExample Param1
   \<and> \<not> spec_onlyParamWithConstants looseNamesExample Param2
   \<and> inferBluetoothParamOrder looseNamesExample = Some \<lparr>actionParam = Param1, profileParam = Some Param2\<rparr>"
  by (simp add: constantOrRangeExample_facts laterSetExample_facts looseNamesExample_facts)


text \<open>
  Claim C4, amended. For a behaviour whose names are ASCII text,
  \<open>inferBluetoothParamOrder\<close> takes the first metadata set in which a description with
  a constant has a name that, lower-cased and stripped of white space, underscores and
  hyphens, is one of the six action labels so treated. In that set the action
  parameter is \<open>param1\<close> when it has at least as many such descriptions as \<open>param2\<close>,
  else \<open>param2\<close>, and the other parameter is the profile parameter only if it has a
  description in that set. When no set has such a description, a parameter is the sole
  action parameter exactly when it has a constant, has no range, HID-usage or layer-id
  description, and the other parameter has no description in any set (\<open>param1\<close> tried
  first); otherwise there is no role mapping.
\<close>

theorem inferBluetoothParamOrder_characterised:
  assumes "asciiNames b"
  shows "(\<forall>pre s post.
            metadata b = pre @ s # post
            \<and> (\<forall>t\<in>set pre. stated_matchCount (set_param1 t) = 0 \<and> stated_matchCount (set_param2 t) = 0)
            \<and> (0 < stated_matchCount (set_param1 s) \<or> 0 < stated_matchCount (set_param2 s)) \<longrightarrow>
            inferBluetoothParamOrder b =
              Some \<lparr>actionParam = (if stated_matchCount (set_param2 s) \<le> stated_matchCount (set_param1 s)
                                   then Param1 else Param2),
                    profileParam =
                      (if stated_matchCount (set_param2 s) \<le> stated_matchCount (set_param1 s)
                       then (if set_param2 s = [] then None else Some Param2)
                       else (if set_param1 s = [] then None else Some Param1))\<rparr>)
       \<and> ((\<forall>t\<in>set (metadata b). stated_matchCount (set_param1 t) = 0 \<and> stated_matchCount (set_param2 t) = 0) \<longrightarrow>
            inferBluetoothParamOrder b =
              (if (\<exists>d\<in>set (concat (map set_param1 (metadata b))). constantValue d \<noteq> None)
                   \<and> concat (map set_param2 (metadata b)) = []
                   \<and> (\<forall>d\<in>set (concat (map set_param1 (metadata b))).
                         hidUsage d = None \<and> layerId d = None \<and> valueRange d = None)
               then Some \<lparr>actionParam = Param1, profileParam = None\<rparr>
               else if (\<exists>d\<in>set (concat (map set_param2 (metadata b))). constantValue d \<noteq> None)
                   \<and> concat (map set_param1 (metadata b)) = []
                   \<and> (\<forall>d\<in>set (concat (map set_param2 (metadata b))).
                         hidUsage d = None \<and> layerId d = None \<and> valueRange d = None)
               then Some \<lparr>actionParam = Param2, profileParam = None\<rparr>
               else None))"
proof (intro conjI allI impI)
  fix pre s post
  assume a: "metadata b = pre @ s # post
            \<and> (\<forall>t\<in>set pre. stated_matchCount (set_param1 t) = 0 \<and> stated_matchCount (set_param2 t) = 0)
            \<and> (0 < stated_matchCount (set_param1 s) \<or> 0 < stated_matchCount (set_param2 s))"
  then have m: "metadata b = pre @ s # post" and p: "list_all scoresNothing pre"
    and ns: "\<not> scoresNothing s"
    by (auto simp: scoresNothing_stated list_all_iff)
  have "bluetoothOrderOfSets (metadata b) =
     Some \<lparr>actionParam = (if paramScore Param2 s \<le> paramScore Param1 s then Param1 else Param2),
           profileParam =
             (if paramOfSet (otherParamName (if paramScore Param2 s \<le> paramScore Param1 s then Param1 else Param2)) s = []
              then None
              else Some (otherParamName (if paramScore Param2 s \<le> paramScore Param1 s then Param1 else Param2)))\<rparr>"
    unfolding m by (rule bluetoothOrderOfSets_first[OF p ns])
  then show "inferBluetoothParamOrder b =
              Some \<lparr>actionParam = (if stated_matchCount (set_param2 s) \<le> stated_matchCount (set_param1 s)
                                   then Param1 else Param2),
                    profileParam =
                      (if stated_matchCount (set_param2 s) \<le> stated_matchCount (set_param1 s)
                       then (if set_param2 s = [] then None else Some Param2)
                       else (if set_param1 s = [] then None else Some Param1))\<rparr>"
    by (simp add: inferBluetoothParamOrder_def otherParamName_def paramOfSet_def paramScore_stated)
next
  assume "\<forall>t\<in>set (metadata b). stated_matchCount (set_param1 t) = 0 \<and> stated_matchCount (set_param2 t) = 0"
  then have "list_all scoresNothing (metadata b)"
    by (simp add: scoresNothing_stated list_all_iff)
  then have n: "bluetoothOrderOfSets (metadata b) = None"
    by (simp add: bluetoothOrderOfSets_None_iff)
  show "inferBluetoothParamOrder b =
        (if (\<exists>d\<in>set (concat (map set_param1 (metadata b))). constantValue d \<noteq> None)
             \<and> concat (map set_param2 (metadata b)) = []
             \<and> (\<forall>d\<in>set (concat (map set_param1 (metadata b))).
                   hidUsage d = None \<and> layerId d = None \<and> valueRange d = None)
         then Some \<lparr>actionParam = Param1, profileParam = None\<rparr>
         else if (\<exists>d\<in>set (concat (map set_param2 (metadata b))). constantValue d \<noteq> None)
             \<and> concat (map set_param1 (metadata b)) = []
             \<and> (\<forall>d\<in>set (concat (map set_param2 (metadata b))).
                   hidUsage d = None \<and> layerId d = None \<and> valueRange d = None)
         then Some \<lparr>actionParam = Param2, profileParam = None\<rparr>
         else None)"
    unfolding inferBluetoothParamOrder_def n
    by (subst inferSingleConstantParam_iff) simp
qed

lemma bluetoothExample_scores:
  "paramScore Param1 (hd (metadata bluetoothExample)) = 6"
  "paramScore Param2 (hd (metadata bluetoothExample)) = 0"
  "list_all scoresNothing (metadata outputExample)"
  by (simp_all add: bluetoothExample_def outputExample_def example_eval)

lemma examples_ascii:
  "asciiNames bluetoothExample"
  "asciiNames outputExample"
  "asciiNames looseNamesExample"
  "asciiNames rangeProfileExample"
  by (simp_all add: ascii_eval bluetoothExample_def outputExample_def looseNamesExample_def
      rangeProfileExample_def sixActions_def constantDescription_def rangeDescription_def)

theorem inferBluetoothParamOrder_characterised_witness:
  "inferBluetoothParamOrder bluetoothExample = Some \<lparr>actionParam = Param1, profileParam = None\<rparr>
   \<and> inferBluetoothParamOrder looseNamesExample = Some \<lparr>actionParam = Param1, profileParam = Some Param2\<rparr>
   \<and> inferBluetoothParamOrder outputExample = Some \<lparr>actionParam = Param1, profileParam = None\<rparr>"
proof -
  define s where "s = hd (metadata bluetoothExample)"
  have m: "metadata bluetoothExample = [] @ s # []" "set_param2 s = []"
    by (simp_all add: s_def bluetoothExample_def)
  have sc: "stated_matchCount (set_param1 s) = 6" "stated_matchCount (set_param2 s) = 0"
    unfolding s_def
    by (simp_all add: bluetoothExample_def sixActions_def constantDescription_def stated_eval)
  from inferBluetoothParamOrder_characterised[OF examples_ascii(1), THEN conjunct1, rule_format, of "[]" s "[]"]
    m(1) sc
  have "inferBluetoothParamOrder bluetoothExample =
        Some \<lparr>actionParam = (if stated_matchCount (set_param2 s) \<le> stated_matchCount (set_param1 s) then Param1 else Param2),
              profileParam =
                (if stated_matchCount (set_param2 s) \<le> stated_matchCount (set_param1 s)
                 then (if set_param2 s = [] then None else Some Param2)
                 else (if set_param1 s = [] then None else Some Param1))\<rparr>"
    by simp
  then have 1: "inferBluetoothParamOrder bluetoothExample = Some \<lparr>actionParam = Param1, profileParam = None\<rparr>"
    by (simp add: sc, simp add: m)
  define u where "u = hd (metadata looseNamesExample)"
  have mu: "metadata looseNamesExample = [] @ u # []" "set_param2 u = [rangeDescription ''Profile'' 0 4]"
    by (simp_all add: u_def looseNamesExample_def)
  have su: "stated_matchCount (set_param1 u) = 2" "stated_matchCount (set_param2 u) = 0"
    unfolding u_def
    by (simp_all add: looseNamesExample_def constantDescription_def rangeDescription_def stated_eval)
  from inferBluetoothParamOrder_characterised[OF examples_ascii(3), THEN conjunct1, rule_format, of "[]" u "[]"]
    mu(1) su
  have "inferBluetoothParamOrder looseNamesExample =
        Some \<lparr>actionParam = (if stated_matchCount (set_param2 u) \<le> stated_matchCount (set_param1 u) then Param1 else Param2),
              profileParam =
                (if stated_matchCount (set_param2 u) \<le> stated_matchCount (set_param1 u)
                 then (if set_param2 u = [] then None else Some Param2)
                 else (if set_param1 u = [] then None else Some Param1))\<rparr>"
    by simp
  then have 2: "inferBluetoothParamOrder looseNamesExample = Some \<lparr>actionParam = Param1, profileParam = Some Param2\<rparr>"
    by (simp add: su, simp add: mu)
  have o: "concat (map set_param1 (metadata outputExample))
             = [constantDescription ''USB'' 0, constantDescription ''BLE'' 1]"
    "concat (map set_param2 (metadata outputExample)) = []"
    by (simp_all add: outputExample_def)
  have so: "\<forall>t\<in>set (metadata outputExample). stated_matchCount (set_param1 t) = 0 \<and> stated_matchCount (set_param2 t) = 0"
    by (simp add: outputExample_def constantDescription_def stated_eval)
  from inferBluetoothParamOrder_characterised[OF examples_ascii(2), THEN conjunct2] so
  have 3: "inferBluetoothParamOrder outputExample = Some \<lparr>actionParam = Param1, profileParam = None\<rparr>"
    by (simp add: o constantDescription_def)
  from 1 2 3 show ?thesis by simp
qed

section \<open>The bluetooth picker\<close>




lemma bluetoothBinding_params:
  "resolvedProfileParam order = otherParamName (actionParam order) \<Longrightarrow>
   out_behaviorId (bluetoothBinding b order v place prof) = behavior_id b
   \<and> (actionParam order = Param1 \<longrightarrow>
         out_param1 (bluetoothBinding b order v place prof) = Num v
         \<and> out_param2 (bluetoothBinding b order v place prof) = (if place then prof else Num 0))
   \<and> (actionParam order = Param2 \<longrightarrow>
         out_param2 (bluetoothBinding b order v place prof) = Num v
         \<and> out_param1 (bluetoothBinding b order v place prof) = (if place then prof else Num 0))"
  by (cases "actionParam order") (auto simp: bluetoothBinding_def otherParamName_def)












































section \<open>Importing a keymap file\<close>

text \<open>
  The two nested loops of the import are the sequential run over the list of edits
  that the specification describes.
\<close>

declare importKeys.simps [simp del]
declare importLayers.simps [simp del]

lemma length_layers_withBinding [simp]: "length (layers (withBinding km l k v)) = length (layers km)"
  by (simp add: withBinding_def)

lemma importKeys_runEdits:
  assumes "mk \<le> length cur" "mk \<le> length nxt" "list_all (\<lambda>b. b \<noteq> None) cur"
    and "li < length (layers (imp_replica st))"
  shows "importKeys dev li (layer_id (layers km ! li)) cur nxt mk k st
           = runEdits dev km st (concat (map (spec_keyEdit li cur nxt) [k..<mk]))"
  using assms(4)
proof (induction "mk - k" arbitrary: k st)
  case 0
  then have "\<not> k < mk" by simp
  then show ?case by (subst importKeys.simps) simp
next
  case (Suc n)
  then have lt: "k < mk" and n: "n = mk - Suc k" by simp_all
  from lt assms have kc: "k < length cur" and kn: "k < length nxt" by simp_all
  from kc assms(3) obtain old where old: "cur ! k = Some old"
    by (auto simp: list_all_length)
  have up: "[k..<mk] = k # [Suc k..<mk]" using lt by (simp add: upt_conv_Cons)
  note ih = Suc.hyps(1)[OF n]
  show ?case
  proof (cases "nxt ! k")
    case None
    then show ?thesis
      using lt kn ih[OF Suc.prems]
      by (subst importKeys.simps) (simp add: up spec_keyEdit_def)
  next
    case (Some nb)
    show ?thesis
    proof (cases "old = bindingOfImported nb")
      case True
      then show ?thesis
        using lt kn kc Some old ih[OF Suc.prems]
        by (subst importKeys.simps) (simp add: up spec_keyEdit_def bindingAt_def)
    next
      case False
      let ?req = "\<lparr>req_layerId = layer_id (layers km ! li), req_keyPosition = k,
                    req_binding = Some (bindingOfImported nb)\<rparr>"
      let ?st1 = "st\<lparr>imp_sent := imp_sent st @ [?req], imp_device := snd (dev (imp_device st) ?req)\<rparr>"
      have r: "setBindingRecipe (int li) k (Some (bindingOfImported nb)) (imp_replica ?st1)
                 = Inr (withBinding (imp_replica st) li k (Some (bindingOfImported nb)))"
        using Suc.prems by (simp add: setBindingRecipe_valid)
      have l: "li < length (layers (imp_replica (?st1\<lparr>imp_replica :=
                  withBinding (imp_replica st) li k (Some (bindingOfImported nb))\<rparr>)))"
        using Suc.prems by simp
      have e: "spec_keyEdit li cur nxt k = [(li, k, bindingOfImported nb)]"
        using Some old False by (simp add: spec_keyEdit_def)
      show ?thesis
        using lt kn kc Some old False r ih[OF l]
        by (subst importKeys.simps) (simp add: up e bindingAt_def requestOf_def Let_def)
    qed
  qed
qed


lemma runEdits_append:
  "runEdits dev km st (es1 @ es2) =
     (case runEdits dev km st es1 of
        (Completed, st') \<Rightarrow> runEdits dev km st' es2
      | other \<Rightarrow> other)"
  by (induction es1 arbitrary: st) (simp_all add: Let_def)

lemma runEdits_layers_length:
  "runEdits dev km st es = (flow, st') \<Longrightarrow>
   length (layers (imp_replica st')) = length (layers (imp_replica st))"
proof (induction es arbitrary: st)
  case Nil
  then show ?case by simp
next
  case (Cons e es)
  show ?case
  proof (cases "fst (dev (imp_device st) (requestOf km e)) = Some SET_LAYER_BINDING_RESP_OK")
    case True
    with Cons.prems have "runEdits dev km
        (st\<lparr>imp_sent := imp_sent st @ [requestOf km e],
            imp_device := snd (dev (imp_device st) (requestOf km e)),
            imp_replica := withBinding (imp_replica st) (fst e) (fst (snd e)) (Some (snd (snd e)))\<rparr>) es
        = (flow, st')"
      by (simp add: Let_def)
    from Cons.IH[OF this] show ?thesis by simp
  next
    case False
    with Cons.prems show ?thesis by (auto simp: Let_def)
  qed
qed

lemma importLayers_runEdits:
  assumes "ml \<le> length (layers km)" "ml \<le> length imported" "denseKeymap km"
    and "length (layers (imp_replica st)) = length (layers km)"
  shows "importLayers dev km imported ml li st
           = runEdits dev km st (concat (map (spec_layerEdits km imported) [li..<ml]))"
  using assms(4)
proof (induction "ml - li" arbitrary: li st)
  case 0
  then have "\<not> li < ml" by simp
  then show ?case by (subst importLayers.simps) simp
next
  case (Suc n)
  then have lt: "li < ml" and n: "n = ml - Suc li" by simp_all
  from lt assms have lk: "li < length (layers km)" and li: "li < length imported" by simp_all
  have g: "arrayGet (layers km) (int li) = Some (layers km ! li)"
    using lk by (simp add: arrayGet_def)
  have up: "[li..<ml] = li # [Suc li..<ml]" using lt by (simp add: upt_conv_Cons)
  note ih = Suc.hyps(1)[OF n]
  show ?case
  proof (cases "imported ! li")
    case None
    then show ?thesis
      using lt li g ih[OF Suc.prems]
      by (subst importLayers.simps) (simp add: up spec_layerEdits_def)
  next
    case (Some nxt)
    let ?cur = "bindings (layers km ! li)"
    have d: "list_all (\<lambda>b. b \<noteq> None) ?cur"
      using assms(3) lk by (simp add: denseKeymap_def list_all_length)
    have lr: "li < length (layers (imp_replica st))" using Suc.prems lk by simp
    have k: "importKeys dev li (layer_id (layers km ! li)) ?cur nxt (min (length ?cur) (length nxt)) 0 st
               = runEdits dev km st (spec_keyEdits li ?cur nxt)"
      unfolding spec_keyEdits_def
      by (rule importKeys_runEdits[OF _ _ d lr]) simp_all
    have e: "spec_layerEdits km imported li = spec_keyEdits li ?cur nxt"
      using Some by (simp add: spec_layerEdits_def)
    obtain flow st' where r: "runEdits dev km st (spec_keyEdits li ?cur nxt) = (flow, st')"
      by (cases "runEdits dev km st (spec_keyEdits li ?cur nxt)")
    have len: "length (layers (imp_replica st')) = length (layers km)"
      using runEdits_layers_length[OF r] Suc.prems by simp
    show ?thesis
      using lt li g Some k r ih[OF len]
      by (subst importLayers.simps) (simp add: up e runEdits_append split: Flow.splits)
  qed
qed


lemma acceptedCount_le: "acceptedCount dev d reqs \<le> length reqs"
proof -
  have "length (deviceAnswers dev d reqs) = length reqs"
    by (induction reqs arbitrary: d) simp_all
  then show ?thesis
    unfolding acceptedCount_def by (metis length_takeWhile_le)
qed

lemma runEdits_outcome:
  assumes "runEdits dev km st es = (flow, st')"
  shows "(acceptedCount dev (imp_device st) (map (requestOf km) es) = length es \<longrightarrow>
            flow = Completed
            \<and> imp_sent st' = imp_sent st @ map (requestOf km) es
            \<and> imp_replica st' = applyEdits (imp_replica st) es
            \<and> imp_alerts st' = imp_alerts st)
       \<and> (acceptedCount dev (imp_device st) (map (requestOf km) es) < length es \<longrightarrow>
            flow = Returned
            \<and> imp_sent st' = imp_sent st
                 @ map (requestOf km) (take (Suc (acceptedCount dev (imp_device st) (map (requestOf km) es))) es)
            \<and> imp_replica st' = applyEdits (imp_replica st)
                 (take (acceptedCount dev (imp_device st) (map (requestOf km) es)) es)
            \<and> imp_alerts st' = imp_alerts st @ [''Failed to import keymap (setLayerBinding error)''])"
  using assms
proof (induction es arbitrary: st)
  case Nil
  then show ?case by (simp add: acceptedCount_def)
next
  case (Cons e es)
  let ?a = "dev (imp_device st) (requestOf km e)"
  show ?case
  proof (cases "fst ?a = Some SET_LAYER_BINDING_RESP_OK")
    case False
    then have c: "acceptedCount dev (imp_device st) (map (requestOf km) (e # es)) = 0"
      by (simp add: acceptedCount_def)
    from False Cons.prems show ?thesis
      unfolding c by (auto simp: Let_def)
  next
    case True
    let ?st2 = "st\<lparr>imp_sent := imp_sent st @ [requestOf km e], imp_device := snd ?a,
                   imp_replica := withBinding (imp_replica st) (fst e) (fst (snd e)) (Some (snd (snd e)))\<rparr>"
    from True have c: "acceptedCount dev (imp_device st) (map (requestOf km) (e # es))
                        = Suc (acceptedCount dev (imp_device ?st2) (map (requestOf km) es))"
      by (simp add: acceptedCount_def)
    from True Cons.prems have r: "runEdits dev km ?st2 es = (flow, st')"
      by (simp add: Let_def)
    from Cons.IH[OF r] show ?thesis
      unfolding c by simp
  qed
qed

lemma spec_keyEdit_member:
  "(li', k', b) \<in> set (spec_keyEdit li cur nxt k) \<longleftrightarrow>
     li' = li \<and> k' = k \<and> (\<exists>nb. nxt ! k = Some nb \<and> b = bindingOfImported nb) \<and> cur ! k \<noteq> Some b"
  by (cases "nxt ! k") (auto simp: spec_keyEdit_def)

lemma spec_keyEdits_member:
  "(li', k, b) \<in> set (spec_keyEdits li cur nxt) \<longleftrightarrow>
     li' = li \<and> k < min (length cur) (length nxt)
     \<and> (\<exists>nb. nxt ! k = Some nb \<and> b = bindingOfImported nb) \<and> cur ! k \<noteq> Some b"
  unfolding spec_keyEdits_def by (simp add: spec_keyEdit_member)

lemma spec_layerEdits_member:
  "(li', k, b) \<in> set (spec_layerEdits km imported li) \<longleftrightarrow>
     li' = li
     \<and> (\<exists>nxt. imported ! li = Some nxt
            \<and> k < min (length (bindings (layers km ! li))) (length nxt)
            \<and> (\<exists>nb. nxt ! k = Some nb \<and> b = bindingOfImported nb))
     \<and> bindings (layers km ! li) ! k \<noteq> Some b"
  by (cases "imported ! li") (auto simp: spec_layerEdits_def spec_keyEdits_member)

lemma spec_pendingEdits_member:
  "(li, k, b) \<in> set (spec_pendingEdits km imported) \<longleftrightarrow>
     li < min (length (layers km)) (length imported)
     \<and> (\<exists>nxt. imported ! li = Some nxt
            \<and> k < min (length (bindings (layers km ! li))) (length nxt)
            \<and> (\<exists>nb. nxt ! k = Some nb \<and> b = bindingOfImported nb))
     \<and> bindings (layers km ! li) ! k \<noteq> Some b"
  unfolding spec_pendingEdits_def by (simp add: spec_layerEdits_member)

lemma bindingAt_arraySet_neq: "j \<noteq> k \<Longrightarrow> bindingAt (arraySet xs k v) j = bindingAt xs j"
  by (auto simp: bindingAt_def arraySet_def nth_append nth_Cons')

lemma bindingAt_withBinding_other:
  assumes "(l, k) \<noteq> (li, j)"
  shows "bindingAt (bindings (layers (withBinding km l k v) ! li)) j = bindingAt (bindings (layers km ! li)) j"
proof (cases "l = li \<and> l < length (layers km)")
  case True
  with assms have "j \<noteq> k" by auto
  with True show ?thesis by (simp add: withBinding_def bindingAt_arraySet_neq)
next
  case False
  then show ?thesis
    by (cases "l < length (layers km)") (auto simp: withBinding_def list_update_beyond)
qed

lemma applyEdits_untouched:
  assumes "\<forall>b. (li, j, b) \<notin> set es"
  shows "bindingAt (bindings (layers (applyEdits km es) ! li)) j = bindingAt (bindings (layers km ! li)) j"
  using assms
proof (induction es arbitrary: km)
  case Nil
  then show ?case by simp
next
  case (Cons e es)
  obtain l k b where e: "e = (l, k, b)" by (cases e) auto
  with Cons.prems have ne: "(l, k) \<noteq> (li, j)" and rest: "\<forall>b. (li, j, b) \<notin> set es" by auto
  from Cons.IH[OF rest, of "withBinding km l k (Some b)"] bindingAt_withBinding_other[OF ne, of km "Some b"]
  show ?case by (simp add: e)
qed

lemma positions_concat:
  assumes "\<And>x. map (\<lambda>e. (fst e, fst (snd e))) (f x) = (if f x = [] then [] else [g x])"
  shows "map (\<lambda>e. (fst e, fst (snd e))) (concat (map f xs)) = map g (filter (\<lambda>x. f x \<noteq> []) xs)"
  by (induction xs) (simp_all add: assms)

lemma spec_keyEdit_position:
  "map (\<lambda>e. (fst e, fst (snd e))) (spec_keyEdit li cur nxt k)
     = (if spec_keyEdit li cur nxt k = [] then [] else [(li, k)])"
  by (simp add: spec_keyEdit_def split: option.splits)

lemma spec_keyEdits_positions:
  "map (\<lambda>e. (fst e, fst (snd e))) (spec_keyEdits li cur nxt)
     = map (Pair li) (filter (\<lambda>k. spec_keyEdit li cur nxt k \<noteq> []) [0..<min (length cur) (length nxt)])"
  unfolding spec_keyEdits_def by (rule positions_concat) (rule spec_keyEdit_position)

lemma spec_layerEdits_positions:
  "\<exists>ks. distinct ks \<and> map (\<lambda>e. (fst e, fst (snd e))) (spec_layerEdits km imported li) = map (Pair li) ks"
proof (cases "imported ! li")
  case None
  then have "distinct [] \<and> map (\<lambda>e. (fst e, fst (snd e))) (spec_layerEdits km imported li) = map (Pair li) []"
    by (simp add: spec_layerEdits_def)
  then show ?thesis by blast
next
  case (Some nxt)
  let ?ks = "filter (\<lambda>k. spec_keyEdit li (bindings (layers km ! li)) nxt k \<noteq> [])
               [0..<min (length (bindings (layers km ! li))) (length nxt)]"
  have "distinct ?ks" by simp
  moreover have "map (\<lambda>e. (fst e, fst (snd e))) (spec_layerEdits km imported li) = map (Pair li) ?ks"
    using Some by (simp add: spec_layerEdits_def spec_keyEdits_positions)
  ultimately show ?thesis by blast
qed

lemma distinct_positions_concat:
  assumes "distinct xs"
    and "\<And>x. \<exists>ks. distinct ks \<and> map (\<lambda>e. (fst e, fst (snd e))) (f x) = map (Pair x) ks"
  shows "distinct (map (\<lambda>e. (fst e, fst (snd e))) (concat (map f xs)))
         \<and> fst ` set (concat (map f xs)) \<subseteq> set xs"
  using assms(1)
proof (induction xs)
  case Nil
  then show ?case by simp
next
  case (Cons a xs)
  from assms(2)[of a] obtain ks where ks: "distinct ks"
    "map (\<lambda>e. (fst e, fst (snd e))) (f a) = map (Pair a) ks"
    by blast
  from Cons have ih: "distinct (map (\<lambda>e. (fst e, fst (snd e))) (concat (map f xs)))"
    "fst ` set (concat (map f xs)) \<subseteq> set xs" and a: "a \<notin> set xs"
    by simp_all
  have d: "distinct (map (Pair a) ks)"
    using ks(1) by (simp add: distinct_map inj_on_def)
  have fa: "fst ` set (f a) \<subseteq> {a}"
  proof
    fix x assume "x \<in> fst ` set (f a)"
    then obtain e where e: "e \<in> set (f a)" "x = fst e" by blast
    then have "(fst e, fst (snd e)) \<in> set (map (\<lambda>e. (fst e, fst (snd e))) (f a))" by simp
    with ks(2) have "(fst e, fst (snd e)) \<in> set (map (Pair a) ks)" by simp
    with e show "x \<in> {a}" by auto
  qed
  have disj: "set (map (\<lambda>e. (fst e, fst (snd e))) (f a))
                \<inter> set (map (\<lambda>e. (fst e, fst (snd e))) (concat (map f xs))) = {}"
  proof (rule ccontr)
    assume "\<not> ?thesis"
    then obtain p where p: "p \<in> set (map (\<lambda>e. (fst e, fst (snd e))) (f a))"
      "p \<in> set (map (\<lambda>e. (fst e, fst (snd e))) (concat (map f xs)))"
      by blast
    from p(1) fa have "fst p = a" by auto
    moreover have "fst p \<in> set xs"
    proof -
      from p(2) obtain e where e: "e \<in> set (concat (map f xs))" "p = (fst e, fst (snd e))"
        by auto
      then have "fst e \<in> fst ` set (concat (map f xs))" by blast
      with ih(2) have "fst e \<in> set xs" by blast
      with e(2) show ?thesis by simp
    qed
    ultimately show False using a by simp
  qed
  have 1: "distinct (map (\<lambda>e. (fst e, fst (snd e))) (concat (map f (a # xs))))"
    using d ks(2) ih(1) disj by simp
  have 2: "fst ` set (concat (map f (a # xs))) \<subseteq> set (a # xs)"
  proof
    fix x assume "x \<in> fst ` set (concat (map f (a # xs)))"
    then have "x \<in> fst ` set (f a) \<or> x \<in> fst ` set (concat (map f xs))" by auto
    then show "x \<in> set (a # xs)"
    proof
      assume "x \<in> fst ` set (f a)"
      with fa have "x = a" by blast
      then show ?thesis by simp
    next
      assume "x \<in> fst ` set (concat (map f xs))"
      with ih(2) have "x \<in> set xs" by blast
      then show ?thesis by simp
    qed
  qed
  from 1 2 show ?case by simp
qed

lemma spec_pendingEdits_distinct:
  "distinct (map (\<lambda>e. (fst e, fst (snd e))) (spec_pendingEdits km imported))"
  unfolding spec_pendingEdits_def
  using distinct_positions_concat[of "[0..<min (length (layers km)) (length imported)]"
          "spec_layerEdits km imported"] spec_layerEdits_positions
  by simp

lemma length_layers_applyEdits [simp]:
  "length (layers (applyEdits km es)) = length (layers km)"
  by (induction es arbitrary: km) simp_all

lemma applyEdits_applied:
  assumes "distinct (map (\<lambda>e. (fst e, fst (snd e))) es)" "(li, k, b) \<in> set es"
    and "li < length (layers km)"
  shows "bindingAt (bindings (layers (applyEdits km es) ! li)) k = Some b"
  using assms
proof (induction es arbitrary: km)
  case Nil
  then show ?case by simp
next
  case (Cons e es)
  show ?case
  proof (cases "e = (li, k, b)")
    case True
    with Cons.prems(1) have "(li, k) \<notin> (\<lambda>e. (fst e, fst (snd e))) ` set es" by simp
    then have "\<forall>b'. (li, k, b') \<notin> set es" by force
    from applyEdits_untouched[OF this, of "withBinding km li k (Some b)"]
    have "bindingAt (bindings (layers (applyEdits (withBinding km li k (Some b)) es) ! li)) k
            = bindingAt (bindings (layers (withBinding km li k (Some b)) ! li)) k" .
    also have "\<dots> = Some b"
      using Cons.prems(3) by (simp add: withBinding_bindings bindingAt_arraySet)
    finally show ?thesis using True by simp
  next
    case False
    with Cons.prems have m: "(li, k, b) \<in> set es"
      and d: "distinct (map (\<lambda>e. (fst e, fst (snd e))) es)"
      by simp_all
    have l: "li < length (layers (withBinding km (fst e) (fst (snd e)) (Some (snd (snd e)))))"
      using Cons.prems(3) by simp
    from Cons.IH[OF d m l] show ?thesis by simp
  qed
qed

text \<open>
  Claim C8. With the device connected and unlocked, a keymap loaded and a document that
  holds a non-empty array of layers, the import runs, and what it does is fixed by the
  list of pending edits: an edit stands for exactly the layer indices below the smaller
  of the device's and the document's layer counts and the key positions below the
  smaller of the two key counts at which the imported binding is present and differs
  from the current one, so an equal binding gives no request and no change. Each edit is
  sent as a request of its own. If the device accepts all of them, the import completes
  with every edit applied to the replica and no alert. If the device rejects one, the
  import returns at once: the rejected request is the last one sent, the replica holds
  exactly the edits accepted before it, and the failure is reported in an alert. In
  both cases every applied edit's binding stands at its layer and key position in the
  replica, a position that none of the applied edits names holds what it held before,
  and the number of layers is unchanged. The binding of an imported entry has its three
  fields with 0 for a missing one, and the layers are read from the first of
  \<open>keymap.layers\<close>, \<open>layers\<close> and \<open>keymap.getKeymap.layers\<close> that is not falsy.
\<close>

theorem importKeymap_prefix:
  assumes "denseKeymap km" and "importedLayersOf doc = Array imported" and "imported \<noteq> []"
  shows "\<exists>flow st.
           importKeymap dev True ZMK_STUDIO_CORE_LOCK_STATE_UNLOCKED (Some km) (Parsed doc) d0 = Ran flow st
           \<and> (acceptedCount dev d0 (map (requestOf km) (spec_pendingEdits km imported))
                  = length (spec_pendingEdits km imported) \<longrightarrow>
                flow = Completed
                \<and> imp_sent st = map (requestOf km) (spec_pendingEdits km imported)
                \<and> imp_replica st = applyEdits km (spec_pendingEdits km imported)
                \<and> imp_alerts st = [])
           \<and> (acceptedCount dev d0 (map (requestOf km) (spec_pendingEdits km imported))
                  < length (spec_pendingEdits km imported) \<longrightarrow>
                flow = Returned
                \<and> imp_sent st = map (requestOf km)
                     (take (Suc (acceptedCount dev d0 (map (requestOf km) (spec_pendingEdits km imported))))
                        (spec_pendingEdits km imported))
                \<and> imp_replica st = applyEdits km
                     (take (acceptedCount dev d0 (map (requestOf km) (spec_pendingEdits km imported)))
                        (spec_pendingEdits km imported))
                \<and> imp_alerts st = [''Failed to import keymap (setLayerBinding error)''])
           \<and> (\<forall>li k b. (li, k, b) \<in> set (spec_pendingEdits km imported) \<longleftrightarrow>
                li < min (length (layers km)) (length imported)
                \<and> (\<exists>nxt. imported ! li = Some nxt
                       \<and> k < min (length (bindings (layers km ! li))) (length nxt)
                       \<and> (\<exists>nb. nxt ! k = Some nb \<and> b = bindingOfImported nb))
                \<and> bindings (layers km ! li) ! k \<noteq> Some b)
           \<and> (\<forall>n li k. (\<forall>b. (li, k, b) \<notin> set (take n (spec_pendingEdits km imported))) \<longrightarrow>
                bindingAt (bindings (layers (applyEdits km (take n (spec_pendingEdits km imported))) ! li)) k
                  = bindingAt (bindings (layers km ! li)) k)
           \<and> (\<forall>li k b. (li, k, b) \<in> set (take (acceptedCount dev d0 (map (requestOf km) (spec_pendingEdits km imported)))
                                        (spec_pendingEdits km imported)) \<longrightarrow>
                bindingAt (bindings (layers (imp_replica st) ! li)) k = Some b)
           \<and> (\<forall>li k. (\<forall>b. (li, k, b) \<notin> set (take (acceptedCount dev d0 (map (requestOf km) (spec_pendingEdits km imported)))
                                            (spec_pendingEdits km imported))) \<longrightarrow>
                bindingAt (bindings (layers (imp_replica st) ! li)) k = bindingAt (bindings (layers km ! li)) k)
           \<and> length (layers (imp_replica st)) = length (layers km)
           \<and> (\<forall>nb. bindingOfImported nb =
                  \<lparr>behaviorId = (case imp_behaviorId nb of None \<Rightarrow> 0 | Some x \<Rightarrow> x),
                   param1 = (case imp_param1 nb of None \<Rightarrow> 0 | Some x \<Rightarrow> x),
                   param2 = (case imp_param2 nb of None \<Rightarrow> 0 | Some x \<Rightarrow> x)\<rparr>)
           \<and> importedLayersOf doc =
                 (if doc_keymap_layers doc \<noteq> Falsy then doc_keymap_layers doc
                  else if doc_layers doc \<noteq> Falsy then doc_layers doc
                  else doc_keymap_getKeymap_layers doc)"
proof -
  let ?es = "spec_pendingEdits km imported"
  let ?st0 = "\<lparr>imp_replica = km, imp_sent = [], imp_device = d0, imp_alerts = []\<rparr>"
  have run: "importLayers dev km imported (min (length (layers km)) (length imported)) 0 ?st0
               = runEdits dev km ?st0 ?es"
    unfolding spec_pendingEdits_def
    by (rule importLayers_runEdits[OF _ _ assms(1)]) simp_all
  obtain flow st where r: "runEdits dev km ?st0 ?es = (flow, st)"
    by (cases "runEdits dev km ?st0 ?es")
  have i: "importKeymap dev True ZMK_STUDIO_CORE_LOCK_STATE_UNLOCKED (Some km) (Parsed doc) d0 = Ran flow st"
    using assms(2,3) run r by (simp add: importKeymap_def)
  note o = runEdits_outcome[OF r]
  have m: "\<forall>li k b. (li, k, b) \<in> set ?es \<longleftrightarrow>
                li < min (length (layers km)) (length imported)
                \<and> (\<exists>nxt. imported ! li = Some nxt
                       \<and> k < min (length (bindings (layers km ! li))) (length nxt)
                       \<and> (\<exists>nb. nxt ! k = Some nb \<and> b = bindingOfImported nb))
                \<and> bindings (layers km ! li) ! k \<noteq> Some b"
    by (intro allI) (rule spec_pendingEdits_member)
  have u: "\<forall>n li k. (\<forall>b. (li, k, b) \<notin> set (take n ?es)) \<longrightarrow>
                bindingAt (bindings (layers (applyEdits km (take n ?es)) ! li)) k
                  = bindingAt (bindings (layers km ! li)) k"
    by (simp add: applyEdits_untouched)
  let ?n = "acceptedCount dev d0 (map (requestOf km) ?es)"
  have "?n = length ?es \<or> ?n < length ?es"
    using acceptedCount_le[of dev d0 "map (requestOf km) ?es"] by auto
  with o have rep: "imp_replica st = applyEdits km (take ?n ?es)"
    by auto
  have dist: "distinct (map (\<lambda>e. (fst e, fst (snd e))) (take ?n ?es))"
    using spec_pendingEdits_distinct[of km imported] by (simp add: take_map[symmetric] distinct_take)
  have a: "\<forall>li k b. (li, k, b) \<in> set (take ?n ?es) \<longrightarrow>
             bindingAt (bindings (layers (imp_replica st) ! li)) k = Some b"
  proof (intro allI impI)
    fix li k b
    assume e: "(li, k, b) \<in> set (take ?n ?es)"
    then have "(li, k, b) \<in> set ?es" by (rule in_set_takeD)
    then have "li < length (layers km)" by (simp add: spec_pendingEdits_member)
    from applyEdits_applied[OF dist e this] show
      "bindingAt (bindings (layers (imp_replica st) ! li)) k = Some b"
      by (simp only: rep)
  qed
  have u': "\<forall>li k. (\<forall>b. (li, k, b) \<notin> set (take ?n ?es)) \<longrightarrow>
             bindingAt (bindings (layers (imp_replica st) ! li)) k = bindingAt (bindings (layers km ! li)) k"
    by (simp only: rep) (simp add: applyEdits_untouched)
  have l: "length (layers (imp_replica st)) = length (layers km)"
    by (simp only: rep length_layers_applyEdits)
  from i o m u have c: "importKeymap dev True ZMK_STUDIO_CORE_LOCK_STATE_UNLOCKED (Some km) (Parsed doc) d0 = Ran flow st
           \<and> (?n = length ?es \<longrightarrow>
                flow = Completed
                \<and> imp_sent st = map (requestOf km) ?es
                \<and> imp_replica st = applyEdits km ?es
                \<and> imp_alerts st = [])
           \<and> (?n < length ?es \<longrightarrow>
                flow = Returned
                \<and> imp_sent st = map (requestOf km) (take (Suc ?n) ?es)
                \<and> imp_replica st = applyEdits km (take ?n ?es)
                \<and> imp_alerts st = [''Failed to import keymap (setLayerBinding error)''])
           \<and> (\<forall>li k b. (li, k, b) \<in> set ?es \<longleftrightarrow>
                li < min (length (layers km)) (length imported)
                \<and> (\<exists>nxt. imported ! li = Some nxt
                       \<and> k < min (length (bindings (layers km ! li))) (length nxt)
                       \<and> (\<exists>nb. nxt ! k = Some nb \<and> b = bindingOfImported nb))
                \<and> bindings (layers km ! li) ! k \<noteq> Some b)
           \<and> (\<forall>n li k. (\<forall>b. (li, k, b) \<notin> set (take n ?es)) \<longrightarrow>
                bindingAt (bindings (layers (applyEdits km (take n ?es)) ! li)) k
                  = bindingAt (bindings (layers km ! li)) k)"
    by simp
  have bi: "\<forall>nb. bindingOfImported nb =
                  \<lparr>behaviorId = (case imp_behaviorId nb of None \<Rightarrow> 0 | Some x \<Rightarrow> x),
                   param1 = (case imp_param1 nb of None \<Rightarrow> 0 | Some x \<Rightarrow> x),
                   param2 = (case imp_param2 nb of None \<Rightarrow> 0 | Some x \<Rightarrow> x)\<rparr>"
    by (simp add: bindingOfImported_def orZero_def)
  have il: "importedLayersOf doc =
                 (if doc_keymap_layers doc \<noteq> Falsy then doc_keymap_layers doc
                  else if doc_layers doc \<noteq> Falsy then doc_layers doc
                  else doc_keymap_getKeymap_layers doc)"
    by (simp add: importedLayersOf_def orElse_def)
  from c a u' l bi il show ?thesis
    by (intro exI[of _ flow] exI[of _ st] conjI) blast+
qed

text \<open>
  The example: a document of two layers imported into the keymap of three layers. The
  first imported layer has four bindings, one more than the device has keys, the second
  has two, of which the first equals the binding held. Four edits are pending. A device
  that rejects the third request leaves the first two applied; a device that accepts
  every request receives all four.
\<close>

lemma importExample_edits:
  "spec_pendingEdits keymapExample importedLayersExample
     = [(0, 0, keyPress 20), (0, 1, keyPress 21), (0, 2, keyPress 22), (1, 1, keyPress 30)]"
  by (simp add: spec_pendingEdits_def spec_layerEdits_def spec_keyEdits_def spec_keyEdit_def
      keymapExample_def importedLayersExample_def importedBinding_def bindingOfImported_def
      orZero_def keyPress_def)

lemma importExample_requests:
  "map (requestOf keymapExample) [(0, 0, keyPress 20), (0, 1, keyPress 21), (0, 2, keyPress 22), (1, 1, keyPress 30)]
     = [\<lparr>req_layerId = 10, req_keyPosition = 0, req_binding = Some (keyPress 20)\<rparr>,
        \<lparr>req_layerId = 10, req_keyPosition = 1, req_binding = Some (keyPress 21)\<rparr>,
        \<lparr>req_layerId = 10, req_keyPosition = 2, req_binding = Some (keyPress 22)\<rparr>,
        \<lparr>req_layerId = 11, req_keyPosition = 1, req_binding = Some (keyPress 30)\<rparr>]"
  by (simp add: requestOf_def keymapExample_def)

lemma importExample_accepted:
  "acceptedCount rejectThird 0 [r1, r2, r3, r4] = 2"
  "acceptedCount acceptAll 0 [r1, r2, r3, r4] = 4"
  by (simp_all add: acceptedCount_def rejectThird_def acceptAll_def)

lemma keymapExample_dense: "denseKeymap keymapExample"
  by (simp add: denseKeymap_def keymapExample_def)

theorem importKeymap_prefix_witness:
  "(\<exists>st. importKeymap rejectThird True ZMK_STUDIO_CORE_LOCK_STATE_UNLOCKED (Some keymapExample)
            (Parsed importExample) 0 = Ran Returned st
        \<and> imp_sent st = [\<lparr>req_layerId = 10, req_keyPosition = 0, req_binding = Some (keyPress 20)\<rparr>,
                          \<lparr>req_layerId = 10, req_keyPosition = 1, req_binding = Some (keyPress 21)\<rparr>,
                          \<lparr>req_layerId = 10, req_keyPosition = 2, req_binding = Some (keyPress 22)\<rparr>]
        \<and> imp_replica st = withBinding (withBinding keymapExample 0 0 (Some (keyPress 20))) 0 1
                               (Some (keyPress 21))
        \<and> bindingAt (bindings (layers (imp_replica st) ! 0)) 0 = Some (keyPress 20)
        \<and> bindingAt (bindings (layers (imp_replica st) ! 0)) 1 = Some (keyPress 21)
        \<and> bindingAt (bindings (layers (imp_replica st) ! 0)) 2 = Some (keyPress 6)
        \<and> bindingAt (bindings (layers (imp_replica st) ! 1)) 1 = Some (keyPress 8)
        \<and> length (layers (imp_replica st)) = 3
        \<and> imp_alerts st = [''Failed to import keymap (setLayerBinding error)''])
   \<and> (\<exists>st. importKeymap acceptAll True ZMK_STUDIO_CORE_LOCK_STATE_UNLOCKED (Some keymapExample)
            (Parsed importExample) 0 = Ran Completed st
        \<and> imp_sent st = [\<lparr>req_layerId = 10, req_keyPosition = 0, req_binding = Some (keyPress 20)\<rparr>,
                          \<lparr>req_layerId = 10, req_keyPosition = 1, req_binding = Some (keyPress 21)\<rparr>,
                          \<lparr>req_layerId = 10, req_keyPosition = 2, req_binding = Some (keyPress 22)\<rparr>,
                          \<lparr>req_layerId = 11, req_keyPosition = 1, req_binding = Some (keyPress 30)\<rparr>]
        \<and> bindingAt (bindings (layers (imp_replica st) ! 0)) 2 = Some (keyPress 22)
        \<and> bindingAt (bindings (layers (imp_replica st) ! 1)) 0 = Some (keyPress 7)
        \<and> bindingAt (bindings (layers (imp_replica st) ! 1)) 1 = Some (keyPress 30)
        \<and> bindingAt (bindings (layers (imp_replica st) ! 2)) 0 = Some (keyPress 1)
        \<and> imp_alerts st = [])"
proof -
  have d: "importedLayersOf importExample = Array importedLayersExample"
    by (simp add: importedLayersOf_def importExample_def orElse_def)
  have ne: "importedLayersExample \<noteq> []"
    by (simp add: importedLayersExample_def)
  let ?es = "spec_pendingEdits keymapExample importedLayersExample"
  have n1: "acceptedCount rejectThird 0 (map (requestOf keymapExample) ?es) = 2"
    and n2: "acceptedCount acceptAll 0 (map (requestOf keymapExample) ?es) = 4"
    and len: "length ?es = 4"
    by (simp_all add: importExample_edits importExample_requests importExample_accepted)
  have s3: "map (requestOf keymapExample) (take (Suc 2) ?es)
      = [\<lparr>req_layerId = 10, req_keyPosition = 0, req_binding = Some (keyPress 20)\<rparr>,
         \<lparr>req_layerId = 10, req_keyPosition = 1, req_binding = Some (keyPress 21)\<rparr>,
         \<lparr>req_layerId = 10, req_keyPosition = 2, req_binding = Some (keyPress 22)\<rparr>]"
    unfolding importExample_edits by (simp add: requestOf_def keymapExample_def)
  have s4: "map (requestOf keymapExample) ?es
      = [\<lparr>req_layerId = 10, req_keyPosition = 0, req_binding = Some (keyPress 20)\<rparr>,
         \<lparr>req_layerId = 10, req_keyPosition = 1, req_binding = Some (keyPress 21)\<rparr>,
         \<lparr>req_layerId = 10, req_keyPosition = 2, req_binding = Some (keyPress 22)\<rparr>,
         \<lparr>req_layerId = 11, req_keyPosition = 1, req_binding = Some (keyPress 30)\<rparr>]"
    unfolding importExample_edits by (rule importExample_requests)
  have a2: "applyEdits keymapExample (take 2 ?es)
      = withBinding (withBinding keymapExample 0 0 (Some (keyPress 20))) 0 1 (Some (keyPress 21))"
    by (simp add: importExample_edits)
  have t2: "take 2 ?es = [(0, 0, keyPress 20), (0, 1, keyPress 21)]"
    and t4: "take 4 ?es = [(0, 0, keyPress 20), (0, 1, keyPress 21), (0, 2, keyPress 22), (1, 1, keyPress 30)]"
    by (simp_all add: importExample_edits)
  have old: "bindingAt (bindings (layers keymapExample ! 0)) 2 = Some (keyPress 6)"
    "bindingAt (bindings (layers keymapExample ! 1)) 1 = Some (keyPress 8)"
    "bindingAt (bindings (layers keymapExample ! 1)) 0 = Some (keyPress 7)"
    "bindingAt (bindings (layers keymapExample ! 2)) 0 = Some (keyPress 1)"
    "length (layers keymapExample) = 3"
    by (simp_all add: keymapExample_def bindingAt_def keyPress_def)
  from importKeymap_prefix[OF keymapExample_dense d ne, of rejectThird 0]
  obtain flow1 st1 where i1:
    "importKeymap rejectThird True ZMK_STUDIO_CORE_LOCK_STATE_UNLOCKED (Some keymapExample)
       (Parsed importExample) 0 = Ran flow1 st1"
    and r1: "acceptedCount rejectThird 0 (map (requestOf keymapExample) ?es) < length ?es \<longrightarrow>
       flow1 = Returned
       \<and> imp_sent st1 = map (requestOf keymapExample)
            (take (Suc (acceptedCount rejectThird 0 (map (requestOf keymapExample) ?es))) ?es)
       \<and> imp_replica st1 = applyEdits keymapExample
            (take (acceptedCount rejectThird 0 (map (requestOf keymapExample) ?es)) ?es)
       \<and> imp_alerts st1 = [''Failed to import keymap (setLayerBinding error)'']"
    and p1: "\<forall>li k b. (li, k, b) \<in> set (take (acceptedCount rejectThird 0 (map (requestOf keymapExample) ?es)) ?es) \<longrightarrow>
       bindingAt (bindings (layers (imp_replica st1) ! li)) k = Some b"
    and u1: "\<forall>li k. (\<forall>b. (li, k, b) \<notin> set (take (acceptedCount rejectThird 0 (map (requestOf keymapExample) ?es)) ?es)) \<longrightarrow>
       bindingAt (bindings (layers (imp_replica st1) ! li)) k = bindingAt (bindings (layers keymapExample ! li)) k"
    and l1: "length (layers (imp_replica st1)) = length (layers keymapExample)"
    by blast
  from r1 have 1:
    "flow1 = Returned"
    "imp_sent st1 = [\<lparr>req_layerId = 10, req_keyPosition = 0, req_binding = Some (keyPress 20)\<rparr>,
                          \<lparr>req_layerId = 10, req_keyPosition = 1, req_binding = Some (keyPress 21)\<rparr>,
                          \<lparr>req_layerId = 10, req_keyPosition = 2, req_binding = Some (keyPress 22)\<rparr>]"
    "imp_replica st1 = withBinding (withBinding keymapExample 0 0 (Some (keyPress 20))) 0 1
                               (Some (keyPress 21))"
    "imp_alerts st1 = [''Failed to import keymap (setLayerBinding error)'']"
    using n1 len s3 a2 by simp_all
  have p1': "bindingAt (bindings (layers (imp_replica st1) ! 0)) 0 = Some (keyPress 20)"
    "bindingAt (bindings (layers (imp_replica st1) ! 0)) 1 = Some (keyPress 21)"
    using p1[unfolded n1 t2, rule_format, of 0 0 "keyPress 20"]
      p1[unfolded n1 t2, rule_format, of 0 1 "keyPress 21"]
    by simp_all
  have u1': "bindingAt (bindings (layers (imp_replica st1) ! 0)) 2 = Some (keyPress 6)"
    "bindingAt (bindings (layers (imp_replica st1) ! 1)) 1 = Some (keyPress 8)"
    using u1[unfolded n1 t2, rule_format, of 0 2] u1[unfolded n1 t2, rule_format, of 1 1] old
    by simp_all
  from l1 have l1': "length (layers (imp_replica st1)) = 3" by (simp add: old)
  from importKeymap_prefix[OF keymapExample_dense d ne, of acceptAll 0]
  obtain flow2 st2 where i2:
    "importKeymap acceptAll True ZMK_STUDIO_CORE_LOCK_STATE_UNLOCKED (Some keymapExample)
       (Parsed importExample) 0 = Ran flow2 st2"
    and r2: "acceptedCount acceptAll 0 (map (requestOf keymapExample) ?es) = length ?es \<longrightarrow>
       flow2 = Completed
       \<and> imp_sent st2 = map (requestOf keymapExample) ?es
       \<and> imp_replica st2 = applyEdits keymapExample ?es
       \<and> imp_alerts st2 = []"
    and p2: "\<forall>li k b. (li, k, b) \<in> set (take (acceptedCount acceptAll 0 (map (requestOf keymapExample) ?es)) ?es) \<longrightarrow>
       bindingAt (bindings (layers (imp_replica st2) ! li)) k = Some b"
    and u2: "\<forall>li k. (\<forall>b. (li, k, b) \<notin> set (take (acceptedCount acceptAll 0 (map (requestOf keymapExample) ?es)) ?es)) \<longrightarrow>
       bindingAt (bindings (layers (imp_replica st2) ! li)) k = bindingAt (bindings (layers keymapExample ! li)) k"
    by blast
  from r2 have 2:
    "flow2 = Completed"
    "imp_sent st2 = [\<lparr>req_layerId = 10, req_keyPosition = 0, req_binding = Some (keyPress 20)\<rparr>,
                          \<lparr>req_layerId = 10, req_keyPosition = 1, req_binding = Some (keyPress 21)\<rparr>,
                          \<lparr>req_layerId = 10, req_keyPosition = 2, req_binding = Some (keyPress 22)\<rparr>,
                          \<lparr>req_layerId = 11, req_keyPosition = 1, req_binding = Some (keyPress 30)\<rparr>]"
    "imp_alerts st2 = []"
    using n2 len s4 by simp_all
  have p2': "bindingAt (bindings (layers (imp_replica st2) ! 0)) 2 = Some (keyPress 22)"
    "bindingAt (bindings (layers (imp_replica st2) ! 1)) 1 = Some (keyPress 30)"
    using p2[unfolded n2 t4, rule_format, of 0 2 "keyPress 22"]
      p2[unfolded n2 t4, rule_format, of 1 1 "keyPress 30"]
    by simp_all
  have u2': "bindingAt (bindings (layers (imp_replica st2) ! 1)) 0 = Some (keyPress 7)"
    "bindingAt (bindings (layers (imp_replica st2) ! 2)) 0 = Some (keyPress 1)"
    using u2[unfolded n2 t4, rule_format, of 1 0] u2[unfolded n2 t4, rule_format, of 2 0] old
    by simp_all
  from i1 1 p1' u1' l1' i2 2 p2' u2' show ?thesis by blast
qed

end
